theory Spec2Isabelle
  imports Main
begin

section \<open>The document model consumed from yaml-cpp\<close>

text \<open>
  \<^verbatim>\<open>YAML::NodeType::value\<close>, the kind of a node. A node of a parsed document is null, a
  scalar, a sequence or a map; \<^verbatim>\<open>Undefined\<close> is the kind yaml-cpp gives to a node that
  does not exist, and no child of a document has it.
\<close>

datatype NodeType = Undefined | Null | Scalar | Sequence | Map

text \<open>
  \<^verbatim>\<open>YAML::Node\<close>, read-only. A sequence keeps its children in order; a map keeps its
  entries in document order, each a key node and a value node, so that duplicate keys and
  keys that are not scalars can be written down.
\<close>

datatype Node =
    NullNode
  | ScalarNode string
  | SequenceNode "Node list"
  | MapNode "(Node \<times> Node) list"

fun Type :: "Node \<Rightarrow> NodeType" where
  "Type NullNode = Null"
| "Type (ScalarNode text) = Scalar"
| "Type (SequenceNode children) = Sequence"
| "Type (MapNode entries) = Map"

definition IsNull :: "Node \<Rightarrow> bool" where
  "IsNull node = (Type node = Null)"

definition IsSequence :: "Node \<Rightarrow> bool" where
  "IsSequence node = (Type node = Sequence)"

definition IsMap :: "Node \<Rightarrow> bool" where
  "IsMap node = (Type node = Map)"

text \<open>\<^verbatim>\<open>Node::size()\<close>: the number of children of a sequence or a map, 0 otherwise.\<close>

fun node_size :: "Node \<Rightarrow> nat" where
  "node_size (SequenceNode children) = length children"
| "node_size (MapNode entries) = length entries"
| "node_size node = 0"

text \<open>
  The range \<^verbatim>\<open>node.begin() .. node.end()\<close>. Over a sequence the iterator yields the
  children, over a map the entries (\<^verbatim>\<open>i->first\<close>, \<^verbatim>\<open>i->second\<close>); over a scalar or a
  null node the range is empty.
\<close>

fun sequence_range :: "Node \<Rightarrow> Node list" where
  "sequence_range (SequenceNode children) = children"
| "sequence_range node = []"

fun map_range :: "Node \<Rightarrow> (Node \<times> Node) list" where
  "map_range (MapNode entries) = entries"
| "map_range node = []"

text \<open>\<^verbatim>\<open>Node::Scalar()\<close>: the text of a scalar, the empty string for any other node.\<close>

fun Scalar_text :: "Node \<Rightarrow> string" where
  "Scalar_text (ScalarNode text) = text"
| "Scalar_text node = []"

section \<open>Decimal rendering\<close>

text \<open>
  \<^verbatim>\<open>std::to_string\<close> on a \<^verbatim>\<open>std::size_t\<close> and on an \<^verbatim>\<open>int\<close>: the decimal digits, with a
  leading minus sign for a negative \<^verbatim>\<open>int\<close>.
\<close>

definition digit_char :: "nat \<Rightarrow> char" where
  "digit_char d = ''0123456789'' ! d"

fun to_string :: "nat \<Rightarrow> string" where
  "to_string n = (if n < 10 then [digit_char n] else to_string (n div 10) @ [digit_char (n mod 10)])"

declare to_string.simps [simp del]

definition to_string_int :: "int \<Rightarrow> string" where
  "to_string_int i = (if i < 0 then CHR ''-'' # to_string (nat (- i)) else to_string (nat i))"

section \<open>Errors\<close>

record YamlNodeDescription =
  name :: string
  user_type :: string
  node_type :: NodeType

record YamlError =
  message :: string
  trace :: "YamlNodeDescription list"

text \<open>
  Modelled from the spec: the constructor \<^verbatim>\<open>YamlError(message, node_path = {})\<close> is
  declared in the header and defined outside it. It stores its two arguments.
\<close>

definition YamlError :: "string \<Rightarrow> YamlNodeDescription list \<Rightarrow> YamlError" where
  "YamlError msg node_path = \<lparr>message = msg, trace = node_path\<rparr>"

text \<open>
  Modelled from the spec: \<^verbatim>\<open>YamlError::appendTrace\<close> is declared in the header
  (``Append a node description to the trace'') and defined outside it. The description
  goes to the end of the trace, the message is kept.
\<close>

definition appendTrace :: "YamlError \<Rightarrow> YamlNodeDescription \<Rightarrow> YamlError" where
  "appendTrace err description = err\<lparr>trace := trace err @ [description]\<rparr>"

section \<open>Converters\<close>

text \<open>
  \<^verbatim>\<open>YamlResult<T>\<close> is \<open>YamlError + 'a\<close>. A converter for a type \<^verbatim>\<open>T\<close> is a C++ function
  from a node to a \<^verbatim>\<open>YamlResult<T>\<close>; the composite converters below are templates over
  \<^verbatim>\<open>T\<close> and call whatever converter is registered for it. What such a call does besides
  returning is kept as a state \<open>'s\<close> that every call may read and change, so that the
  order and the number of the calls made by a composite converter can be observed. A pure
  converter is one that returns the state it was given.
\<close>

type_synonym ('s, 'a) converter = "Node \<Rightarrow> 's \<Rightarrow> (YamlError + 'a) \<times> 's"

text \<open>
  \<^verbatim>\<open>parseYaml<T>(node)\<close> at run time: \<^verbatim>\<open>return convert(node, ParseYaml<T>{})\<close>, where the
  overload \<open>convert_T\<close> has been selected at build time.
\<close>

definition parseYaml :: "('s, 'a) converter \<Rightarrow> ('s, 'a) converter" where
  "parseYaml convert_T node = convert_T node"

subsection \<open>\<^verbatim>\<open>std::vector<T>\<close>\<close>

text \<open>
  The loop of the vector converter, from the iterator position \<open>items\<close> on. \<open>index\<close> is
  the C++ \<^verbatim>\<open>int\<close> counter, a mathematical integer here: it counts the children already
  converted, and signed overflow (undefined behaviour in C++, at the 2147483648th child)
  is not modelled. \<open>toString\<close> names a node kind; it is declared in the header and defined
  outside it, and is a parameter here.
\<close>

fun vector_loop ::
  "('s, 'a) converter \<Rightarrow> Node list \<Rightarrow> int \<Rightarrow> 'a list \<Rightarrow> 's \<Rightarrow> (YamlError + 'a list) \<times> 's" where
  "vector_loop convert_T [] index result s = (Inr result, s)"
| "vector_loop convert_T (i # rest) index result s =
     (case parseYaml convert_T i s of
        (Inl err, s') \<Rightarrow>
          (Inl (appendTrace err \<lparr>name = to_string_int index, user_type = [], node_type = Type i\<rparr>), s')
      | (Inr element, s') \<Rightarrow> vector_loop convert_T rest (index + 1) (result @ [element]) s')"

definition convert_vector ::
  "(NodeType \<Rightarrow> string) \<Rightarrow> ('s, 'a) converter \<Rightarrow> ('s, 'a list) converter" where
  "convert_vector toString convert_T node s =
     (if IsNull node then (Inr [], s)
      else if \<not> IsSequence node then
        (Inl (YamlError (''unexpected node type, expected sequence, got '' @ toString (Type node)) []), s)
      else vector_loop convert_T (sequence_range node) 0 [] s)"

subsection \<open>\<^verbatim>\<open>std::array<T, N>\<close>\<close>

text \<open>
  The guard \<^verbatim>\<open>index >= N\<close> compares the \<^verbatim>\<open>int\<close> counter with the \<^verbatim>\<open>std::size_t\<close> length:
  the counter is converted to \<^verbatim>\<open>std::size_t\<close> (64 bits), that is, taken modulo \<open>2 ^ 64\<close>.
\<close>

definition size_t_of_int :: "int \<Rightarrow> nat" where
  "size_t_of_int i = nat (i mod 2 ^ 64)"

text \<open>
  The loop of the array converter. \<^verbatim>\<open>std::array<T, N> result\<close> starts with \<open>N\<close> slots that
  hold no value yet (\<open>None\<close>); \<^verbatim>\<open>result[index++] = element\<close> fills the slot at \<open>index\<close>.
\<close>

fun array_loop ::
  "('s, 'a) converter \<Rightarrow> nat \<Rightarrow> Node list \<Rightarrow> int \<Rightarrow> 'a option list \<Rightarrow> 's \<Rightarrow> (YamlError + 'a list) \<times> 's" where
  "array_loop convert_T N [] index result s = (Inr (map the result), s)"
| "array_loop convert_T N (i # rest) index result s =
     (if size_t_of_int index \<ge> N then
        (Inl (YamlError (''sequence too long, expected '' @ to_string N @ '', now at index '' @ to_string_int index) []), s)
      else case parseYaml convert_T i s of
        (Inl err, s') \<Rightarrow>
          (Inl (appendTrace err \<lparr>name = to_string_int index, user_type = [], node_type = Type i\<rparr>), s')
      | (Inr element, s') \<Rightarrow>
          array_loop convert_T N rest (index + 1) (result[nat index := Some element]) s')"

definition convert_array ::
  "(NodeType \<Rightarrow> string) \<Rightarrow> ('s, 'a) converter \<Rightarrow> nat \<Rightarrow> ('s, 'a list) converter" where
  "convert_array toString convert_T N node s =
     (if \<not> IsSequence node then
        (Inl (YamlError (''unexpected node type, expected sequence, got '' @ toString (Type node)) []), s)
      else if node_size node \<noteq> N then
        (Inl (YamlError (''wrong number of elements, expected '' @ to_string N @ '', got '' @ to_string (node_size node)) []), s)
      else array_loop convert_T N (sequence_range node) 0 (replicate N None) s)"

subsection \<open>\<^verbatim>\<open>std::map<std::string, T>\<close>\<close>

text \<open>
  The body of the map converter. Its tag parameter is \<^verbatim>\<open>YamlResult<std::map<std::string, T>>\<close>
  where the array and vector converters have \<^verbatim>\<open>ParseYaml<...>\<close>; the section on the overload
  set below says what follows from that. \<^verbatim>\<open>result.insert(name, element)\<close> is read as the
  insertion of the pair, which leaves an entry that is already there as it is.
\<close>

definition map_insert :: "(string \<rightharpoonup> 'a) \<Rightarrow> string \<Rightarrow> 'a \<Rightarrow> (string \<rightharpoonup> 'a)" where
  "map_insert result key element = (case result key of None \<Rightarrow> result(key \<mapsto> element) | Some present \<Rightarrow> result)"

fun map_loop ::
  "('s, 'a) converter \<Rightarrow> (Node \<times> Node) list \<Rightarrow> (string \<rightharpoonup> 'a) \<Rightarrow> 's \<Rightarrow> (YamlError + (string \<rightharpoonup> 'a)) \<times> 's" where
  "map_loop convert_T [] result s = (Inr result, s)"
| "map_loop convert_T (i # rest) result s =
     (case parseYaml convert_T (snd i) s of
        (Inl err, s') \<Rightarrow>
          (Inl (appendTrace err \<lparr>name = Scalar_text (fst i), user_type = [], node_type = Type (snd i)\<rparr>), s')
      | (Inr element, s') \<Rightarrow> map_loop convert_T rest (map_insert result (Scalar_text (fst i)) element) s')"

definition convert_map ::
  "(NodeType \<Rightarrow> string) \<Rightarrow> ('s, 'a) converter \<Rightarrow> ('s, string \<rightharpoonup> 'a) converter" where
  "convert_map toString convert_T node s =
     (if \<not> IsMap node then
        (Inl (YamlError (''unexpected node type, expected map, got '' @ toString (Type node)) []), s)
      else map_loop convert_T (map_range node) Map.empty s)"

section \<open>The overload set of \<^verbatim>\<open>convert\<close>\<close>

text \<open>
  Which converter a call \<^verbatim>\<open>convert(node, tag)\<close> reaches is settled at build time, by
  overload resolution on the type of the tag. The types are those this header builds over
  the element types \<open>'l\<close> that have a converter of their own: the primitive types, whose
  converters are declared here and defined outside the header, and the types of other
  code. \<open>StdMap T\<close> is \<^verbatim>\<open>std::map<std::string, T>\<close>.
\<close>

datatype 'l cpp_type =
    Leaf 'l
  | StdArray "'l cpp_type" nat
  | StdVector "'l cpp_type"
  | StdMap "'l cpp_type"

datatype 'l conversion_tag = ParseYaml "'l cpp_type" | YamlResult "'l cpp_type"

text \<open>The values of these types, in one type.\<close>

datatype 'v yaml_value =
    LeafValue 'v
  | ArrayValue "'v yaml_value list"
  | VectorValue "'v yaml_value list"
  | MapValue "string \<Rightarrow> 'v yaml_value option"

definition map_result :: "('a \<Rightarrow> 'b) \<Rightarrow> ('s, 'a) converter \<Rightarrow> ('s, 'b) converter" where
  "map_result f convert_T node s =
     (case convert_T node s of (Inl err, s') \<Rightarrow> (Inl err, s') | (Inr v, s') \<Rightarrow> (Inr (f v), s'))"

text \<open>
  The overloads, one equation for each declaration of the header, in its order; \<open>None\<close>
  where no overload takes the tag. \<open>primitive l\<close> is the converter declared for the element
  type \<open>l\<close> under the tag \<^verbatim>\<open>ParseYaml<l>\<close>, if there is one. The array and vector templates
  are enabled by \<^verbatim>\<open>can_parse_yaml<T>\<close> and take \<^verbatim>\<open>ParseYaml<std::array<T, N>>\<close> and
  \<^verbatim>\<open>ParseYaml<std::vector<T>>\<close>; the map template is enabled in the same way and takes
  \<^verbatim>\<open>YamlResult<std::map<std::string, T>>\<close>.
\<close>

fun convert ::
  "(NodeType \<Rightarrow> string) \<Rightarrow> ('l \<Rightarrow> ('s, 'v) converter option) \<Rightarrow> 'l conversion_tag \<Rightarrow>
   ('s, 'v yaml_value) converter option" where
  "convert toString primitive (ParseYaml (Leaf l)) =
     (case primitive l of None \<Rightarrow> None | Some convert_l \<Rightarrow> Some (map_result LeafValue convert_l))"
| "convert toString primitive (ParseYaml (StdArray T N)) =
     (case convert toString primitive (ParseYaml T) of
        None \<Rightarrow> None
      | Some convert_T \<Rightarrow> Some (map_result ArrayValue (convert_array toString convert_T N)))"
| "convert toString primitive (ParseYaml (StdVector T)) =
     (case convert toString primitive (ParseYaml T) of
        None \<Rightarrow> None
      | Some convert_T \<Rightarrow> Some (map_result VectorValue (convert_vector toString convert_T)))"
| "convert toString primitive (YamlResult (StdMap T)) =
     (case convert toString primitive (ParseYaml T) of
        None \<Rightarrow> None
      | Some convert_T \<Rightarrow> Some (map_result MapValue (convert_map toString convert_T)))"
| "convert toString primitive tag = None"

text \<open>
  Modelled from the spec: \<^verbatim>\<open>estd::can_convert_tagged_v\<close> belongs to a library outside the
  sources. \<^verbatim>\<open>can_parse_yaml<T>\<close> holds when a conversion is registered for \<^verbatim>\<open>T\<close>, that is,
  when an overload of \<^verbatim>\<open>convert\<close> takes a node and the tag \<^verbatim>\<open>ParseYaml<T>\<close>.
\<close>

definition can_parse_yaml ::
  "(NodeType \<Rightarrow> string) \<Rightarrow> ('l \<Rightarrow> ('s, 'v) converter option) \<Rightarrow> 'l cpp_type \<Rightarrow> bool" where
  "can_parse_yaml toString primitive T = (convert toString primitive (ParseYaml T) \<noteq> None)"

text \<open>
  \<^verbatim>\<open>parseYaml<T>\<close> as instantiated for a type: \<open>None\<close> when the \<^verbatim>\<open>static_assert\<close> fails and
  the program is rejected, otherwise the function \<^verbatim>\<open>parseYaml<T>\<close> is at run time.
\<close>

definition parseYaml_instance ::
  "(NodeType \<Rightarrow> string) \<Rightarrow> ('l \<Rightarrow> ('s, 'v) converter option) \<Rightarrow> 'l cpp_type \<Rightarrow>
   ('s, 'v yaml_value) converter option" where
  "parseYaml_instance toString primitive T =
     (if can_parse_yaml toString primitive T
      then map_option parseYaml (convert toString primitive (ParseYaml T))
      else None)"

section \<open>Key lookup\<close>

text \<open>
  What a C++ call may throw. \<^verbatim>\<open>convertChild\<close> tells \<^verbatim>\<open>std::system_error\<close> (with its code and
  its text) from every other \<^verbatim>\<open>std::exception\<close> (with its text); anything else that is
  thrown is neither. The exceptions of yaml-cpp (\<^verbatim>\<open>YAML::BadConversion\<close>,
  \<^verbatim>\<open>YAML::BadSubscript\<close>, ...) derive from \<^verbatim>\<open>std::runtime_error\<close>, so they are
  \<open>std_exception\<close>s here.
\<close>

datatype error_code = invalid_argument | other_code nat

datatype cpp_exception =
    system_error error_code string
  | std_exception string
  | foreign_exception

text \<open>\<^verbatim>\<open>DetailedError{code, message}\<close> of the error library.\<close>

datatype DetailedError = DetailedError error_code string

text \<open>
  \<^verbatim>\<open>node[key]\<close> on a constant node with a string key. On a map yaml-cpp returns the value
  of the first entry whose key is a scalar with that text; on a map without such an entry,
  on a sequence and on a null node it returns a node that is not defined, for which
  \<^verbatim>\<open>if (node[key])\<close> is false (\<open>None\<close>); on a scalar it throws \<^verbatim>\<open>YAML::BadSubscript\<close>, whose
  text is the parameter \<open>bad_subscript\<close>.
\<close>

fun find_entry :: "(Node \<times> Node) list \<Rightarrow> string \<Rightarrow> Node option" where
  "find_entry [] key = None"
| "find_entry (entry # rest) key =
     (if fst entry = ScalarNode key then Some (snd entry) else find_entry rest key)"

fun subscript :: "string \<Rightarrow> Node \<Rightarrow> string \<Rightarrow> cpp_exception + Node option" where
  "subscript bad_subscript (MapNode entries) key = Inr (find_entry entries key)"
| "subscript bad_subscript (ScalarNode text) key = Inl (std_exception bad_subscript)"
| "subscript bad_subscript node key = Inr None"

text \<open>
  \<^verbatim>\<open>setIfExists\<close>. \<open>as_T\<close> is \<^verbatim>\<open>Node::as<T>()\<close> of yaml-cpp: it returns the value or throws.
  The function returns nothing; the result here is the new content of \<^verbatim>\<open>output\<close>, or the
  exception that leaves the function.
\<close>

definition setIfExists ::
  "string \<Rightarrow> (Node \<Rightarrow> cpp_exception + 'a) \<Rightarrow> 'a \<Rightarrow> Node \<Rightarrow> string \<Rightarrow> cpp_exception + 'a" where
  "setIfExists bad_subscript as_T output node key =
     (case subscript bad_subscript node key of
        Inl thrown \<Rightarrow> Inl thrown
      | Inr None \<Rightarrow> Inr output
      | Inr (Some child) \<Rightarrow>
          (case as_T child of Inl thrown \<Rightarrow> Inl thrown | Inr v \<Rightarrow> Inr v))"

text \<open>
  \<^verbatim>\<open>convertChild\<close>. The result is \<^verbatim>\<open>ErrorOr<T>\<close>, a \<^verbatim>\<open>DetailedError\<close> or a value, unless an
  exception leaves the function (\<open>Inl\<close>). The test \<^verbatim>\<open>!node[key]\<close> is outside the
  \<^verbatim>\<open>try\<close> block, the conversion inside it.
\<close>

definition convertChild ::
  "string \<Rightarrow> (Node \<Rightarrow> cpp_exception + 'a) \<Rightarrow> Node \<Rightarrow> string \<Rightarrow> cpp_exception + (DetailedError + 'a)" where
  "convertChild bad_subscript as_T node key =
     (case subscript bad_subscript node key of
        Inl thrown \<Rightarrow> Inl thrown
      | Inr None \<Rightarrow> Inr (Inl (DetailedError invalid_argument (''no such key: '' @ key)))
      | Inr (Some child) \<Rightarrow>
          (case as_T child of
             Inr v \<Rightarrow> Inr (Inr v)
           | Inl (system_error code what) \<Rightarrow>
               Inr (Inl (DetailedError code (''failed to convert node: '' @ what)))
           | Inl (std_exception what) \<Rightarrow>
               Inr (Inl (DetailedError invalid_argument (''failed to convert node: '' @ what)))
           | Inl foreign_exception \<Rightarrow> Inl foreign_exception))"

section \<open>Vocabulary of the properties\<close>

text \<open>
  The element converter run over a list of nodes from left to right, each call in the state
  the one before left behind: the converted values and the final state when every
  conversion succeeds, \<open>None\<close> as soon as one fails.
\<close>

fun convert_each :: "('s, 'a) converter \<Rightarrow> Node list \<Rightarrow> 's \<Rightarrow> ('a list \<times> 's) option" where
  "convert_each convert_T [] s = Some ([], s)"
| "convert_each convert_T (x # xs) s =
     (case convert_T x s of
        (Inl err, s') \<Rightarrow> None
      | (Inr v, s') \<Rightarrow>
          (case convert_each convert_T xs s' of None \<Rightarrow> None | Some (vs, s'') \<Rightarrow> Some (v # vs, s'')))"

text \<open>
  A path through the document, from a node down to one below it: for each step the
  description the composite converters give of the child they step to, the index of a
  sequence element or the key of a map entry, with the kind of that child.
\<close>

inductive descends :: "Node \<Rightarrow> YamlNodeDescription list \<Rightarrow> Node \<Rightarrow> bool" where
  here: "descends node [] node"
| element: "k < length children \<Longrightarrow> descends (children ! k) path site \<Longrightarrow>
     descends (SequenceNode children)
       (\<lparr>name = to_string k, user_type = [], node_type = Type (children ! k)\<rparr> # path) site"
| entry: "(key, child) \<in> set entries \<Longrightarrow> descends child path site \<Longrightarrow>
     descends (MapNode entries)
       (\<lparr>name = Scalar_text key, user_type = [], node_type = Type child\<rparr> # path) site"

text \<open>
  Where a failure arises. \<open>fails_at toString primitive tag node s path site origin s'\<close>: the
  conversion of \<open>node\<close> under \<open>tag\<close>, started in the state \<open>s\<close>, comes to a failure at the
  node \<open>site\<close>, which lies below \<open>node\<close> along \<open>path\<close> (the step from \<open>node\<close> first); \<open>origin\<close>
  is the error produced there and \<open>s'\<close> the state at that moment. A failure arises at a node
  when the primitive converter called on it returns an error, or when a composite converter
  rejects the node itself for its kind or its size. It arises below a node when the children
  before some child have converted, one after the other, and the failure arises at or below
  that child.
\<close>

inductive fails_at ::
  "(NodeType \<Rightarrow> string) \<Rightarrow> ('l \<Rightarrow> ('s, 'v) converter option) \<Rightarrow> 'l conversion_tag \<Rightarrow>
   Node \<Rightarrow> 's \<Rightarrow> YamlNodeDescription list \<Rightarrow> Node \<Rightarrow> YamlError \<Rightarrow> 's \<Rightarrow> bool"
  for toString :: "NodeType \<Rightarrow> string" and primitive :: "'l \<Rightarrow> ('s, 'v) converter option" where
  primitive_fails:
    "primitive l = Some convert_l \<Longrightarrow> convert_l node s = (Inl origin, s') \<Longrightarrow>
     fails_at toString primitive (ParseYaml (Leaf l)) node s [] node origin s'"
| array_rejects_kind:
    "\<not> IsSequence node \<Longrightarrow>
     fails_at toString primitive (ParseYaml (StdArray T N)) node s [] node
       (YamlError (''unexpected node type, expected sequence, got '' @ toString (Type node)) []) s"
| array_rejects_size:
    "IsSequence node \<Longrightarrow> node_size node \<noteq> N \<Longrightarrow>
     fails_at toString primitive (ParseYaml (StdArray T N)) node s [] node
       (YamlError (''wrong number of elements, expected '' @ to_string N @ '', got '' @
          to_string (node_size node)) []) s"
| array_child_fails:
    "convert toString primitive (ParseYaml T) = Some convert_T \<Longrightarrow>
     length children = N \<Longrightarrow> k < N \<Longrightarrow>
     convert_each convert_T (take k children) s = Some (vs, s1) \<Longrightarrow>
     fails_at toString primitive (ParseYaml T) (children ! k) s1 path site origin s' \<Longrightarrow>
     fails_at toString primitive (ParseYaml (StdArray T N)) (SequenceNode children) s
       (\<lparr>name = to_string k, user_type = [], node_type = Type (children ! k)\<rparr> # path) site origin s'"
| vector_rejects_kind:
    "\<not> IsNull node \<Longrightarrow> \<not> IsSequence node \<Longrightarrow>
     fails_at toString primitive (ParseYaml (StdVector T)) node s [] node
       (YamlError (''unexpected node type, expected sequence, got '' @ toString (Type node)) []) s"
| vector_child_fails:
    "convert toString primitive (ParseYaml T) = Some convert_T \<Longrightarrow>
     k < length children \<Longrightarrow>
     convert_each convert_T (take k children) s = Some (vs, s1) \<Longrightarrow>
     fails_at toString primitive (ParseYaml T) (children ! k) s1 path site origin s' \<Longrightarrow>
     fails_at toString primitive (ParseYaml (StdVector T)) (SequenceNode children) s
       (\<lparr>name = to_string k, user_type = [], node_type = Type (children ! k)\<rparr> # path) site origin s'"
| map_rejects_kind:
    "\<not> IsMap node \<Longrightarrow>
     fails_at toString primitive (YamlResult (StdMap T)) node s [] node
       (YamlError (''unexpected node type, expected map, got '' @ toString (Type node)) []) s"
| map_child_fails:
    "convert toString primitive (ParseYaml T) = Some convert_T \<Longrightarrow>
     k < length entries \<Longrightarrow>
     convert_each convert_T (map snd (take k entries)) s = Some (vs, s1) \<Longrightarrow>
     fails_at toString primitive (ParseYaml T) (snd (entries ! k)) s1 path site origin s' \<Longrightarrow>
     fails_at toString primitive (YamlResult (StdMap T)) (MapNode entries) s
       (\<lparr>name = Scalar_text (fst (entries ! k)), user_type = [],
         node_type = Type (snd (entries ! k))\<rparr> # path) site origin s'"

text \<open>
  Two functions for the examples: an element converter that reads a boolean and records
  every node it is called on, and names for the node kinds.
\<close>

definition example_flag :: "(Node list, bool) converter" where
  "example_flag node log =
     ((case node of
         ScalarNode text \<Rightarrow>
           if text = ''true'' then Inr True
           else if text = ''false'' then Inr False
           else Inl (YamlError (''invalid boolean: '' @ text) [])
       | _ \<Rightarrow> Inl (YamlError ''not a scalar'' [])), log @ [node])"

definition example_kind :: "NodeType \<Rightarrow> string" where
  "example_kind kind =
     (case kind of Undefined \<Rightarrow> ''undefined'' | Null \<Rightarrow> ''null'' | Scalar \<Rightarrow> ''scalar''
      | Sequence \<Rightarrow> ''sequence'' | Map \<Rightarrow> ''map'')"

text \<open>A sample \<^verbatim>\<open>Node::as<bool>()\<close>: it throws the conversion error of yaml-cpp on anything but a boolean.\<close>

definition example_as :: "Node \<Rightarrow> cpp_exception + bool" where
  "example_as node =
     (case node of
        ScalarNode text \<Rightarrow>
          if text = ''true'' then Inr True
          else if text = ''false'' then Inr False
          else Inl (std_exception ''bad conversion'')
      | _ \<Rightarrow> Inl (std_exception ''bad conversion''))"

section \<open>Properties of the loops\<close>

lemma to_string_int_of_nat [simp]: "to_string_int (int n) = to_string n"
  by (simp add: to_string_int_def)

lemma vector_loop_first_failure:
  "convert_each convert_T pre s0 = Some (vs, s1) \<Longrightarrow> convert_T x s1 = (Inl e, s2) \<Longrightarrow>
   vector_loop convert_T (pre @ x # post) index result s0 =
     (Inl (e\<lparr>trace := trace e @ [\<lparr>name = to_string_int (index + int (length pre)), user_type = [], node_type = Type x\<rparr>]\<rparr>), s2)"
proof (induction pre arbitrary: s0 vs index result)
  case Nil
  then show ?case by (simp add: parseYaml_def appendTrace_def)
next
  case (Cons p pre)
  from Cons.prems(1) obtain v s' vs' where
    p: "convert_T p s0 = (Inr v, s')" and rest: "convert_each convert_T pre s' = Some (vs', s1)"
    by (auto split: prod.splits sum.splits option.splits)
  have "index + 1 + int (length pre) = index + int (length (p # pre))" by simp
  with Cons.IH [OF rest Cons.prems(2), of "index + 1" "result @ [v]"] p
  show ?case by (simp add: parseYaml_def)
qed

lemma size_t_of_int_less: "0 \<le> index \<Longrightarrow> nat index < N \<Longrightarrow> \<not> N \<le> size_t_of_int index"
proof -
  assume a: "0 \<le> index" "nat index < N"
  have "index mod 2 ^ 64 \<le> index" using a(1) by (rule zmod_le_nonneg_dividend)
  then have "nat (index mod 2 ^ 64) \<le> nat index" by simp
  with a(2) show ?thesis by (simp add: size_t_of_int_def)
qed

lemma array_loop_first_failure:
  "convert_each convert_T pre s0 = Some (vs, s1) \<Longrightarrow> convert_T x s1 = (Inl e, s2) \<Longrightarrow>
   0 \<le> index \<Longrightarrow> nat index + length pre < N \<Longrightarrow>
   array_loop convert_T N (pre @ x # post) index result s0 =
     (Inl (e\<lparr>trace := trace e @ [\<lparr>name = to_string_int (index + int (length pre)), user_type = [], node_type = Type x\<rparr>]\<rparr>), s2)"
proof (induction pre arbitrary: s0 vs index result)
  case Nil
  then have "\<not> N \<le> size_t_of_int index" by (simp add: size_t_of_int_less)
  with Nil show ?case by (simp add: parseYaml_def appendTrace_def)
next
  case (Cons p pre)
  from Cons.prems(1) obtain v s' vs' where
    p: "convert_T p s0 = (Inr v, s')" and rest: "convert_each convert_T pre s' = Some (vs', s1)"
    by (auto split: prod.splits sum.splits option.splits)
  from Cons.prems have guard: "\<not> N \<le> size_t_of_int index" by (simp add: size_t_of_int_less)
  have idx: "index + 1 + int (length pre) = index + int (length (p # pre))" by simp
  from Cons.prems have "0 \<le> index + 1" "nat (index + 1) + length pre < N" by auto
  from Cons.IH [OF rest Cons.prems(2) this, of "result[nat index := Some v]"] p guard idx
  show ?case by (simp add: parseYaml_def)
qed


lemma to_string_digit: "n < 10 \<Longrightarrow> to_string n = [digit_char n]"
  by (simp add: to_string.simps)

lemma vector_loop_failure:
  "vector_loop convert_T items index result s = (Inl e', s') \<Longrightarrow>
   \<exists>k e vs s1. k < length items \<and> convert_each convert_T (take k items) s = Some (vs, s1) \<and>
     convert_T (items ! k) s1 = (Inl e, s') \<and>
     e' = e\<lparr>trace := trace e @
            [\<lparr>name = to_string_int (index + int k), user_type = [], node_type = Type (items ! k)\<rparr>]\<rparr>"
proof (induction items arbitrary: index result s)
  case Nil
  then show ?case by simp
next
  case (Cons i rest)
  show ?case
  proof (cases "convert_T i s")
    case (Pair r s1)
    show ?thesis
    proof (cases r)
      case (Inl err)
      with Pair Cons.prems have "e' = err\<lparr>trace := trace err @
            [\<lparr>name = to_string_int index, user_type = [], node_type = Type i\<rparr>]\<rparr>" "s' = s1"
        by (simp_all add: parseYaml_def appendTrace_def)
      with Pair Inl have "0 < length (i # rest) \<and> convert_each convert_T (take 0 (i # rest)) s = Some ([], s) \<and>
        convert_T ((i # rest) ! 0) s = (Inl err, s') \<and>
        e' = err\<lparr>trace := trace err @
            [\<lparr>name = to_string_int (index + int 0), user_type = [], node_type = Type ((i # rest) ! 0)\<rparr>]\<rparr>"
        by simp
      then show ?thesis by blast
    next
      case (Inr v)
      with Pair Cons.prems have "vector_loop convert_T rest (index + 1) (result @ [v]) s1 = (Inl e', s')"
        by (simp add: parseYaml_def)
      from Cons.IH [OF this] obtain k e vs s2 where
        k: "k < length rest" and pre: "convert_each convert_T (take k rest) s1 = Some (vs, s2)"
        and fail: "convert_T (rest ! k) s2 = (Inl e, s')"
        and e': "e' = e\<lparr>trace := trace e @
            [\<lparr>name = to_string_int (index + 1 + int k), user_type = [], node_type = Type (rest ! k)\<rparr>]\<rparr>"
        by blast
      have idx: "index + 1 + int k = index + int (Suc k)" by simp
      from k pre fail e' Pair Inr have "Suc k < length (i # rest) \<and>
        convert_each convert_T (take (Suc k) (i # rest)) s = Some (v # vs, s2) \<and>
        convert_T ((i # rest) ! Suc k) s2 = (Inl e, s') \<and>
        e' = e\<lparr>trace := trace e @
            [\<lparr>name = to_string_int (index + int (Suc k)), user_type = [], node_type = Type ((i # rest) ! Suc k)\<rparr>]\<rparr>"
        unfolding idx by simp
      then show ?thesis by blast
    qed
  qed
qed

lemma array_loop_failure:
  "array_loop convert_T N items index result s = (Inl e', s') \<Longrightarrow>
   0 \<le> index \<Longrightarrow> nat index + length items \<le> N \<Longrightarrow>
   \<exists>k e vs s1. k < length items \<and> convert_each convert_T (take k items) s = Some (vs, s1) \<and>
     convert_T (items ! k) s1 = (Inl e, s') \<and>
     e' = e\<lparr>trace := trace e @
            [\<lparr>name = to_string_int (index + int k), user_type = [], node_type = Type (items ! k)\<rparr>]\<rparr>"
proof (induction items arbitrary: index result s)
  case Nil
  then show ?case by simp
next
  case (Cons i rest)
  from Cons.prems have guard: "\<not> N \<le> size_t_of_int index" by (simp add: size_t_of_int_less)
  show ?case
  proof (cases "convert_T i s")
    case (Pair r s1)
    show ?thesis
    proof (cases r)
      case (Inl err)
      with Pair Cons.prems(1) guard have "e' = err\<lparr>trace := trace err @
            [\<lparr>name = to_string_int index, user_type = [], node_type = Type i\<rparr>]\<rparr>" "s' = s1"
        by (simp_all add: parseYaml_def appendTrace_def)
      with Pair Inl have "0 < length (i # rest) \<and> convert_each convert_T (take 0 (i # rest)) s = Some ([], s) \<and>
        convert_T ((i # rest) ! 0) s = (Inl err, s') \<and>
        e' = err\<lparr>trace := trace err @
            [\<lparr>name = to_string_int (index + int 0), user_type = [], node_type = Type ((i # rest) ! 0)\<rparr>]\<rparr>"
        by simp
      then show ?thesis by blast
    next
      case (Inr v)
      with Pair Cons.prems(1) guard
      have "array_loop convert_T N rest (index + 1) (result[nat index := Some v]) s1 = (Inl e', s')"
        by (simp add: parseYaml_def)
      moreover from Cons.prems have "0 \<le> index + 1" "nat (index + 1) + length rest \<le> N" by auto
      ultimately obtain k e vs s2 where
        k: "k < length rest" and pre: "convert_each convert_T (take k rest) s1 = Some (vs, s2)"
        and fail: "convert_T (rest ! k) s2 = (Inl e, s')"
        and e': "e' = e\<lparr>trace := trace e @
            [\<lparr>name = to_string_int (index + 1 + int k), user_type = [], node_type = Type (rest ! k)\<rparr>]\<rparr>"
        using Cons.IH by blast
      have idx: "index + 1 + int k = index + int (Suc k)" by simp
      from k pre fail e' Pair Inr have "Suc k < length (i # rest) \<and>
        convert_each convert_T (take (Suc k) (i # rest)) s = Some (v # vs, s2) \<and>
        convert_T ((i # rest) ! Suc k) s2 = (Inl e, s') \<and>
        e' = e\<lparr>trace := trace e @
            [\<lparr>name = to_string_int (index + int (Suc k)), user_type = [], node_type = Type ((i # rest) ! Suc k)\<rparr>]\<rparr>"
        unfolding idx by simp
      then show ?thesis by blast
    qed
  qed
qed

lemma map_loop_failure:
  "map_loop convert_T entries result s = (Inl e', s') \<Longrightarrow>
   \<exists>k e vs s1. k < length entries \<and>
     convert_each convert_T (map snd (take k entries)) s = Some (vs, s1) \<and>
     convert_T (snd (entries ! k)) s1 = (Inl e, s') \<and>
     e' = e\<lparr>trace := trace e @
            [\<lparr>name = Scalar_text (fst (entries ! k)), user_type = [],
              node_type = Type (snd (entries ! k))\<rparr>]\<rparr>"
proof (induction entries arbitrary: result s)
  case Nil
  then show ?case by simp
next
  case (Cons i rest)
  show ?case
  proof (cases "convert_T (snd i) s")
    case (Pair r s1)
    show ?thesis
    proof (cases r)
      case (Inl err)
      with Pair Cons.prems have "e' = err\<lparr>trace := trace err @
            [\<lparr>name = Scalar_text (fst i), user_type = [], node_type = Type (snd i)\<rparr>]\<rparr>" "s' = s1"
        by (simp_all add: parseYaml_def appendTrace_def)
      with Pair Inl have "0 < length (i # rest) \<and>
        convert_each convert_T (map snd (take 0 (i # rest))) s = Some ([], s) \<and>
        convert_T (snd ((i # rest) ! 0)) s = (Inl err, s') \<and>
        e' = err\<lparr>trace := trace err @
            [\<lparr>name = Scalar_text (fst ((i # rest) ! 0)), user_type = [],
              node_type = Type (snd ((i # rest) ! 0))\<rparr>]\<rparr>"
        by simp
      then show ?thesis by blast
    next
      case (Inr v)
      with Pair Cons.prems
      have "map_loop convert_T rest (map_insert result (Scalar_text (fst i)) v) s1 = (Inl e', s')"
        by (simp add: parseYaml_def)
      from Cons.IH [OF this] obtain k e vs s2 where
        k: "k < length rest"
        and pre: "convert_each convert_T (map snd (take k rest)) s1 = Some (vs, s2)"
        and fail: "convert_T (snd (rest ! k)) s2 = (Inl e, s')"
        and e': "e' = e\<lparr>trace := trace e @
            [\<lparr>name = Scalar_text (fst (rest ! k)), user_type = [],
              node_type = Type (snd (rest ! k))\<rparr>]\<rparr>"
        by blast
      from k pre fail e' Pair Inr have "Suc k < length (i # rest) \<and>
        convert_each convert_T (map snd (take (Suc k) (i # rest))) s = Some (v # vs, s2) \<and>
        convert_T (snd ((i # rest) ! Suc k)) s2 = (Inl e, s') \<and>
        e' = e\<lparr>trace := trace e @
            [\<lparr>name = Scalar_text (fst ((i # rest) ! Suc k)), user_type = [],
              node_type = Type (snd ((i # rest) ! Suc k))\<rparr>]\<rparr>"
        by simp
      then show ?thesis by blast
    qed
  qed
qed

lemma array_loop_eq_vector_loop:
  "0 \<le> index \<Longrightarrow> nat index + length items = N \<Longrightarrow> length result = N \<Longrightarrow>
   take (nat index) result = map Some acc \<Longrightarrow>
   array_loop convert_T N items index result s = vector_loop convert_T items index acc s"
proof (induction items arbitrary: index result acc s)
  case Nil
  then have "result = map Some acc" by simp
  then show ?case by (simp add: comp_def)
next
  case (Cons i rest)
  from Cons.prems have guard: "\<not> N \<le> size_t_of_int index" by (simp add: size_t_of_int_less)
  have step: "array_loop convert_T N rest (index + 1) (result[nat index := Some v]) s1 =
      vector_loop convert_T rest (index + 1) (acc @ [v]) s1" for v s1
  proof (rule Cons.IH)
    show "0 \<le> index + 1" using Cons.prems by simp
    show "nat (index + 1) + length rest = N" using Cons.prems by auto
    show "length (result[nat index := Some v]) = N" using Cons.prems by simp
    have "nat index < length result" using Cons.prems by simp
    then have "take (Suc (nat index)) (result[nat index := Some v]) = take (nat index) result @ [Some v]"
      by (simp add: take_Suc_conv_app_nth)
    moreover have "nat (index + 1) = Suc (nat index)" using Cons.prems by simp
    ultimately show "take (nat (index + 1)) (result[nat index := Some v]) = map Some (acc @ [v])"
      using Cons.prems by simp
  qed
  show ?case using guard step by (simp split: prod.splits sum.splits)
qed

section \<open>Failures of the converters\<close>

lemma convert_vector_failure:
  assumes "convert_vector toString convert_T node s = (Inl e', s')"
  shows "(\<not> IsSequence node \<and> s' = s \<and>
          e' = \<lparr>message = ''unexpected node type, expected sequence, got '' @ toString (Type node),
                trace = []\<rparr>) \<or>
         (\<exists>children k e vs s1. node = SequenceNode children \<and> k < length children \<and>
            convert_each convert_T (take k children) s = Some (vs, s1) \<and>
            convert_T (children ! k) s1 = (Inl e, s') \<and>
            e' = e\<lparr>trace := trace e @
                   [\<lparr>name = to_string k, user_type = [], node_type = Type (children ! k)\<rparr>]\<rparr>)"
proof (cases node)
  case (SequenceNode children)
  with assms have "vector_loop convert_T children 0 [] s = (Inl e', s')"
    by (simp add: convert_vector_def IsNull_def IsSequence_def)
  from vector_loop_failure [OF this] SequenceNode show ?thesis by simp
qed (use assms in \<open>auto simp: convert_vector_def IsNull_def IsSequence_def YamlError_def\<close>)

lemma convert_array_failure:
  assumes "convert_array toString convert_T N node s = (Inl e', s')"
  shows "(\<not> IsSequence node \<and> s' = s \<and>
          e' = \<lparr>message = ''unexpected node type, expected sequence, got '' @ toString (Type node),
                trace = []\<rparr>) \<or>
         (IsSequence node \<and> node_size node \<noteq> N \<and> s' = s \<and>
          e' = \<lparr>message = ''wrong number of elements, expected '' @ to_string N @ '', got '' @
                  to_string (node_size node), trace = []\<rparr>) \<or>
         (\<exists>children k e vs s1. node = SequenceNode children \<and> length children = N \<and> k < N \<and>
            convert_each convert_T (take k children) s = Some (vs, s1) \<and>
            convert_T (children ! k) s1 = (Inl e, s') \<and>
            e' = e\<lparr>trace := trace e @
                   [\<lparr>name = to_string k, user_type = [], node_type = Type (children ! k)\<rparr>]\<rparr>)"
proof (cases node)
  case (SequenceNode children)
  show ?thesis
  proof (cases "length children = N")
    case True
    with assms SequenceNode
    have "array_loop convert_T N children 0 (replicate N None) s = (Inl e', s')"
      by (simp add: convert_array_def IsSequence_def)
    from array_loop_failure [OF this] True SequenceNode show ?thesis by simp
  next
    case False
    with assms SequenceNode show ?thesis
      by (auto simp: convert_array_def IsSequence_def YamlError_def)
  qed
qed (use assms in \<open>auto simp: convert_array_def IsSequence_def YamlError_def\<close>)

lemma convert_map_failure:
  assumes "convert_map toString convert_T node s = (Inl e', s')"
  shows "(\<not> IsMap node \<and> s' = s \<and>
          e' = \<lparr>message = ''unexpected node type, expected map, got '' @ toString (Type node),
                trace = []\<rparr>) \<or>
         (\<exists>entries k e vs s1. node = MapNode entries \<and> k < length entries \<and>
            convert_each convert_T (map snd (take k entries)) s = Some (vs, s1) \<and>
            convert_T (snd (entries ! k)) s1 = (Inl e, s') \<and>
            e' = e\<lparr>trace := trace e @
                   [\<lparr>name = Scalar_text (fst (entries ! k)), user_type = [],
                     node_type = Type (snd (entries ! k))\<rparr>]\<rparr>)"
proof (cases node)
  case (MapNode entries)
  with assms have "map_loop convert_T entries Map.empty s = (Inl e', s')"
    by (simp add: convert_map_def IsMap_def)
  from map_loop_failure [OF this] MapNode show ?thesis by simp
qed (use assms in \<open>auto simp: convert_map_def IsMap_def YamlError_def\<close>)

lemma map_result_failure [simp]:
  "(map_result f convert_T node s = (Inl e, s')) = (convert_T node s = (Inl e, s'))"
  by (auto simp: map_result_def split: prod.splits sum.splits)

lemmas example_simps =
  map_result_def convert_vector_def convert_array_def convert_map_def IsNull_def IsSequence_def
  IsMap_def example_flag_def example_kind_def parseYaml_def appendTrace_def YamlError_def
  size_t_of_int_def to_string_int_def to_string_digit digit_char_def map_insert_def

section \<open>The map converter and the key lookup\<close>

lemma map_loop_first_failure:
  "convert_each convert_T (map snd pre) s0 = Some (vs, s1) \<Longrightarrow> convert_T v s1 = (Inl e, s2) \<Longrightarrow>
   map_loop convert_T (pre @ (k, v) # post) result s0 =
     (Inl (e\<lparr>trace := trace e @ [\<lparr>name = Scalar_text k, user_type = [], node_type = Type v\<rparr>]\<rparr>), s2)"
proof (induction pre arbitrary: s0 vs result)
  case Nil
  then show ?case by (simp add: parseYaml_def appendTrace_def)
next
  case (Cons p pre)
  from Cons.prems(1) obtain w s' vs' where
    p: "convert_T (snd p) s0 = (Inr w, s')"
    and rest: "convert_each convert_T (map snd pre) s' = Some (vs', s1)"
    by (auto split: prod.splits sum.splits option.splits)
  from Cons.IH [OF rest Cons.prems(2)] p show ?case by (simp add: parseYaml_def)
qed

lemma convert_map_body:
  "\<not> IsMap node \<Longrightarrow>
   convert_map toString convert_T node s =
     (Inl \<lparr>message = ''unexpected node type, expected map, got '' @ toString (Type node),
           trace = []\<rparr>, s)"
  "convert_each convert_T (map snd pre) s0 = Some (vs, s1) \<Longrightarrow> convert_T v s1 = (Inl e, s2) \<Longrightarrow>
   convert_map toString convert_T (MapNode (pre @ (k, v) # post)) s0 =
     (Inl (e\<lparr>trace := trace e @ [\<lparr>name = Scalar_text k, user_type = [], node_type = Type v\<rparr>]\<rparr>), s2)"
  by (simp_all add: convert_map_def YamlError_def IsMap_def map_loop_first_failure)

lemma convert_map_under_YamlResult:
  "can_parse_yaml toString primitive T \<Longrightarrow> convert toString primitive (YamlResult (StdMap T)) \<noteq> None"
  by (auto simp: can_parse_yaml_def)

lemma find_entry_absent:
  "ScalarNode key \<notin> fst ` set entries \<Longrightarrow> find_entry entries key = None"
  by (induction entries) auto

section \<open>Where a failure arises\<close>

lemma fails_at_descends:
  "fails_at toString primitive tag node s path site origin s' \<Longrightarrow> descends node path site"
proof (induction rule: fails_at.induct)
  case (map_child_fails T convert_T k entries s vs s1 path site origin s')
  then have "(fst (entries ! k), snd (entries ! k)) \<in> set entries" by simp
  from this map_child_fails.IH show ?case by (rule descends.entry)
qed (auto intro: descends.intros)

lemma fails_at_result:
  "fails_at toString primitive tag node s path site origin s' \<Longrightarrow>
   convert toString primitive tag = Some c \<Longrightarrow>
   c node s = (Inl (origin\<lparr>trace := trace origin @ rev path\<rparr>), s')"
proof (induction arbitrary: c rule: fails_at.induct)
  case (primitive_fails l convert_l node s origin s')
  then show ?case by (auto simp: map_result_def)
next
  case (array_rejects_kind node T N s)
  then show ?case
    by (auto simp: map_result_def convert_array_def YamlError_def split: option.splits)
next
  case (array_rejects_size node N T s)
  then show ?case
    by (auto simp: map_result_def convert_array_def YamlError_def split: option.splits)
next
  case (array_child_fails T convert_T children N k s vs s1 path site origin s')
  from array_child_fails.prems array_child_fails.hyps(1)
  have c: "c = map_result ArrayValue (convert_array toString convert_T N)" by simp
  from array_child_fails.hyps have children:
    "children = take k children @ children ! k # drop (Suc k) children"
    by (simp add: id_take_nth_drop)
  have child: "convert_T (children ! k) s1 = (Inl (origin\<lparr>trace := trace origin @ rev path\<rparr>), s')"
    by (rule array_child_fails.IH) (rule array_child_fails.hyps(1))
  have len: "length (take k children) = k" using array_child_fails.hyps by simp
  have "array_loop convert_T N (take k children @ children ! k # drop (Suc k) children) 0
      (replicate N None) s =
    (Inl ((origin\<lparr>trace := trace origin @ rev path\<rparr>)\<lparr>trace :=
        trace (origin\<lparr>trace := trace origin @ rev path\<rparr>) @
        [\<lparr>name = to_string_int (0 + int (length (take k children))), user_type = [],
          node_type = Type (children ! k)\<rparr>]\<rparr>), s')"
    using array_child_fails.hyps(4) child
    by (rule array_loop_first_failure) (use array_child_fails.hyps in simp_all)
  then have "array_loop convert_T N children 0 (replicate N None) s =
    (Inl (origin\<lparr>trace := trace origin @ rev path @
        [\<lparr>name = to_string k, user_type = [], node_type = Type (children ! k)\<rparr>]\<rparr>), s')"
    unfolding len children [symmetric] by simp
  with array_child_fails.hyps(2) show ?case
    by (simp add: c convert_array_def IsSequence_def)
next
  case (vector_rejects_kind node T s)
  then show ?case
    by (auto simp: map_result_def convert_vector_def YamlError_def split: option.splits)
next
  case (vector_child_fails T convert_T k children s vs s1 path site origin s')
  from vector_child_fails.prems vector_child_fails.hyps(1)
  have c: "c = map_result VectorValue (convert_vector toString convert_T)" by simp
  from vector_child_fails.hyps have children:
    "children = take k children @ children ! k # drop (Suc k) children"
    by (simp add: id_take_nth_drop)
  have child: "convert_T (children ! k) s1 = (Inl (origin\<lparr>trace := trace origin @ rev path\<rparr>), s')"
    by (rule vector_child_fails.IH) (rule vector_child_fails.hyps(1))
  have len: "length (take k children) = k" using vector_child_fails.hyps by simp
  have "vector_loop convert_T (take k children @ children ! k # drop (Suc k) children) 0 [] s =
    (Inl ((origin\<lparr>trace := trace origin @ rev path\<rparr>)\<lparr>trace :=
        trace (origin\<lparr>trace := trace origin @ rev path\<rparr>) @
        [\<lparr>name = to_string_int (0 + int (length (take k children))), user_type = [],
          node_type = Type (children ! k)\<rparr>]\<rparr>), s')"
    using vector_child_fails.hyps(3) child by (rule vector_loop_first_failure)
  then have "vector_loop convert_T children 0 [] s =
    (Inl (origin\<lparr>trace := trace origin @ rev path @
        [\<lparr>name = to_string k, user_type = [], node_type = Type (children ! k)\<rparr>]\<rparr>), s')"
    unfolding len children [symmetric] by simp
  then show ?case
    by (simp add: c convert_vector_def IsSequence_def IsNull_def)
next
  case (map_rejects_kind node T s)
  then show ?case
    by (auto simp: map_result_def convert_map_def YamlError_def split: option.splits)
next
  case (map_child_fails T convert_T k entries s vs s1 path site origin s')
  from map_child_fails.prems map_child_fails.hyps(1)
  have c: "c = map_result MapValue (convert_map toString convert_T)" by simp
  from map_child_fails.hyps have entries:
    "entries = take k entries @ (fst (entries ! k), snd (entries ! k)) # drop (Suc k) entries"
    by (simp add: id_take_nth_drop)
  have child: "convert_T (snd (entries ! k)) s1 =
      (Inl (origin\<lparr>trace := trace origin @ rev path\<rparr>), s')"
    by (rule map_child_fails.IH) (rule map_child_fails.hyps(1))
  have "map_loop convert_T
      (take k entries @ (fst (entries ! k), snd (entries ! k)) # drop (Suc k) entries) Map.empty s =
    (Inl ((origin\<lparr>trace := trace origin @ rev path\<rparr>)\<lparr>trace :=
        trace (origin\<lparr>trace := trace origin @ rev path\<rparr>) @
        [\<lparr>name = Scalar_text (fst (entries ! k)), user_type = [],
          node_type = Type (snd (entries ! k))\<rparr>]\<rparr>), s')"
    using map_child_fails.hyps(3) child by (rule map_loop_first_failure)
  then have "map_loop convert_T entries Map.empty s =
    (Inl (origin\<lparr>trace := trace origin @ rev path @
        [\<lparr>name = Scalar_text (fst (entries ! k)), user_type = [],
          node_type = Type (snd (entries ! k))\<rparr>]\<rparr>), s')"
    unfolding entries [symmetric] by simp
  then show ?case
    by (simp add: c convert_map_def IsMap_def)
qed

lemma failure_of_ParseYaml:
  "convert toString primitive (ParseYaml T) = Some c \<Longrightarrow> c root s = (Inl e, s') \<Longrightarrow>
   \<exists>path site origin. fails_at toString primitive (ParseYaml T) root s path site origin s' \<and>
     e = origin\<lparr>trace := trace origin @ rev path\<rparr>"
proof (induction T arbitrary: c root s e)
  case (Leaf l)
  then obtain convert_l where l: "primitive l = Some convert_l"
    and c: "c = map_result LeafValue convert_l"
    by (auto split: option.splits)
  with Leaf.prems(2) have "convert_l root s = (Inl e, s')" by simp
  with l have "fails_at toString primitive (ParseYaml (Leaf l)) root s [] root e s'"
    by (rule fails_at.primitive_fails)
  moreover have "e = e\<lparr>trace := trace e @ rev []\<rparr>" by simp
  ultimately show ?case by blast
next
  case (StdArray T N)
  then obtain convert_T where T: "convert toString primitive (ParseYaml T) = Some convert_T"
    and c: "c = map_result ArrayValue (convert_array toString convert_T N)"
    by (auto split: option.splits)
  with StdArray.prems(2) have "convert_array toString convert_T N root s = (Inl e, s')" by simp
  from convert_array_failure [OF this] show ?case
  proof (elim disjE exE conjE)
    assume "\<not> IsSequence root" "s' = s"
      "e = \<lparr>message = ''unexpected node type, expected sequence, got '' @ toString (Type root),
            trace = []\<rparr>"
    then have "fails_at toString primitive (ParseYaml (StdArray T N)) root s [] root e s' \<and>
      e = e\<lparr>trace := trace e @ rev []\<rparr>"
      using fails_at.array_rejects_kind [of root toString primitive T N s]
      by (simp add: YamlError_def)
    then show ?thesis by blast
  next
    assume "IsSequence root" "node_size root \<noteq> N" "s' = s"
      "e = \<lparr>message = ''wrong number of elements, expected '' @ to_string N @ '', got '' @
              to_string (node_size root), trace = []\<rparr>"
    then have "fails_at toString primitive (ParseYaml (StdArray T N)) root s [] root e s' \<and>
      e = e\<lparr>trace := trace e @ rev []\<rparr>"
      using fails_at.array_rejects_size [of root N toString primitive T s]
      by (simp add: YamlError_def)
    then show ?thesis by blast
  next
    fix children k e1 vs s1
    assume root: "root = SequenceNode children" and len: "length children = N" and k: "k < N"
      and pre: "convert_each convert_T (take k children) s = Some (vs, s1)"
      and fail: "convert_T (children ! k) s1 = (Inl e1, s')"
      and e: "e = e1\<lparr>trace := trace e1 @
             [\<lparr>name = to_string k, user_type = [], node_type = Type (children ! k)\<rparr>]\<rparr>"
    from StdArray.IH [OF T fail] obtain path site origin where
      below: "fails_at toString primitive (ParseYaml T) (children ! k) s1 path site origin s'"
      and e1: "e1 = origin\<lparr>trace := trace origin @ rev path\<rparr>"
      by blast
    from T len k pre below
    have "fails_at toString primitive (ParseYaml (StdArray T N)) (SequenceNode children) s
       (\<lparr>name = to_string k, user_type = [], node_type = Type (children ! k)\<rparr> # path) site origin s'"
      by (rule fails_at.array_child_fails)
    moreover from e e1 have "e = origin\<lparr>trace := trace origin @
       rev (\<lparr>name = to_string k, user_type = [], node_type = Type (children ! k)\<rparr> # path)\<rparr>"
      by simp
    ultimately show ?thesis unfolding root by blast
  qed
next
  case (StdVector T)
  then obtain convert_T where T: "convert toString primitive (ParseYaml T) = Some convert_T"
    and c: "c = map_result VectorValue (convert_vector toString convert_T)"
    by (auto split: option.splits)
  with StdVector.prems(2) have run: "convert_vector toString convert_T root s = (Inl e, s')" by simp
  then have not_null: "\<not> IsNull root" by (auto simp: convert_vector_def)
  from convert_vector_failure [OF run] show ?case
  proof (elim disjE exE conjE)
    assume "\<not> IsSequence root" "s' = s"
      "e = \<lparr>message = ''unexpected node type, expected sequence, got '' @ toString (Type root),
            trace = []\<rparr>"
    then have "fails_at toString primitive (ParseYaml (StdVector T)) root s [] root e s' \<and>
      e = e\<lparr>trace := trace e @ rev []\<rparr>"
      using fails_at.vector_rejects_kind [of root toString primitive T s] not_null
      by (simp add: YamlError_def)
    then show ?thesis by blast
  next
    fix children k e1 vs s1
    assume root: "root = SequenceNode children" and k: "k < length children"
      and pre: "convert_each convert_T (take k children) s = Some (vs, s1)"
      and fail: "convert_T (children ! k) s1 = (Inl e1, s')"
      and e: "e = e1\<lparr>trace := trace e1 @
             [\<lparr>name = to_string k, user_type = [], node_type = Type (children ! k)\<rparr>]\<rparr>"
    from StdVector.IH [OF T fail] obtain path site origin where
      below: "fails_at toString primitive (ParseYaml T) (children ! k) s1 path site origin s'"
      and e1: "e1 = origin\<lparr>trace := trace origin @ rev path\<rparr>"
      by blast
    from T k pre below
    have "fails_at toString primitive (ParseYaml (StdVector T)) (SequenceNode children) s
       (\<lparr>name = to_string k, user_type = [], node_type = Type (children ! k)\<rparr> # path) site origin s'"
      by (rule fails_at.vector_child_fails)
    moreover from e e1 have "e = origin\<lparr>trace := trace origin @
       rev (\<lparr>name = to_string k, user_type = [], node_type = Type (children ! k)\<rparr> # path)\<rparr>"
      by simp
    ultimately show ?thesis unfolding root by blast
  qed
next
  case (StdMap T)
  then show ?case by simp
qed

lemma failure_of_tag:
  assumes "convert toString primitive tag = Some c" and "c root s = (Inl e, s')"
  shows "\<exists>path site origin. fails_at toString primitive tag root s path site origin s' \<and>
     e = origin\<lparr>trace := trace origin @ rev path\<rparr>"
proof (cases tag)
  case (ParseYaml T)
  with assms show ?thesis by (simp only: failure_of_ParseYaml)
next
  case (YamlResult T)
  show ?thesis
  proof (cases T)
    case (StdMap T')
    with YamlResult assms(1) obtain convert_T where
      T': "convert toString primitive (ParseYaml T') = Some convert_T"
      and c: "c = map_result MapValue (convert_map toString convert_T)"
      by (auto split: option.splits)
    with assms(2) have "convert_map toString convert_T root s = (Inl e, s')" by simp
    from convert_map_failure [OF this] show ?thesis
    proof (elim disjE exE conjE)
      assume "\<not> IsMap root" "s' = s"
        "e = \<lparr>message = ''unexpected node type, expected map, got '' @ toString (Type root),
              trace = []\<rparr>"
      then have "fails_at toString primitive (YamlResult (StdMap T')) root s [] root e s' \<and>
        e = e\<lparr>trace := trace e @ rev []\<rparr>"
        using fails_at.map_rejects_kind [of root toString primitive T' s]
        by (simp add: YamlError_def)
      then show ?thesis unfolding YamlResult StdMap by blast
    next
      fix entries k e1 vs s1
      assume root: "root = MapNode entries" and k: "k < length entries"
        and pre: "convert_each convert_T (map snd (take k entries)) s = Some (vs, s1)"
        and fail: "convert_T (snd (entries ! k)) s1 = (Inl e1, s')"
        and e: "e = e1\<lparr>trace := trace e1 @
               [\<lparr>name = Scalar_text (fst (entries ! k)), user_type = [],
                 node_type = Type (snd (entries ! k))\<rparr>]\<rparr>"
      from failure_of_ParseYaml [OF T' fail] obtain path site origin where
        below: "fails_at toString primitive (ParseYaml T') (snd (entries ! k)) s1 path site origin s'"
        and e1: "e1 = origin\<lparr>trace := trace origin @ rev path\<rparr>"
        by blast
      from T' k pre below
      have "fails_at toString primitive (YamlResult (StdMap T')) (MapNode entries) s
         (\<lparr>name = Scalar_text (fst (entries ! k)), user_type = [],
           node_type = Type (snd (entries ! k))\<rparr> # path) site origin s'"
        by (rule fails_at.map_child_fails)
      moreover from e e1 have "e = origin\<lparr>trace := trace origin @
         rev (\<lparr>name = Scalar_text (fst (entries ! k)), user_type = [],
           node_type = Type (snd (entries ! k))\<rparr> # path)\<rparr>"
        by simp
      ultimately show ?thesis unfolding root YamlResult StdMap by blast
    qed
  qed (use YamlResult assms(1) in simp_all)
qed

section \<open>The claims\<close>

text \<open>
  C1. In the vector and in the array conversion of a sequence, when the children before
  index \<open>k\<close> convert and the conversion of the child at index \<open>k\<close> fails with an error, the
  result is that error with one description added at the end of its trace, whose name is
  \<open>k\<close> in decimal and whose kind is the kind of that child; and the state is the one the
  failed conversion left, whatever children follow: no later child is converted.
\<close>

theorem first_element_failure_stops_conversion:
  assumes "convert_each convert_T pre s0 = Some (vs, s1)"
      and "convert_T x s1 = (Inl e, s2)"
  shows "convert_vector toString convert_T (SequenceNode (pre @ x # post)) s0 =
           (Inl (e\<lparr>trace := trace e @
                  [\<lparr>name = to_string (length pre), user_type = [], node_type = Type x\<rparr>]\<rparr>), s2) \<and>
         convert_array toString convert_T (length (pre @ x # post)) (SequenceNode (pre @ x # post)) s0 =
           (Inl (e\<lparr>trace := trace e @
                  [\<lparr>name = to_string (length pre), user_type = [], node_type = Type x\<rparr>]\<rparr>), s2)"
proof
  show "convert_vector toString convert_T (SequenceNode (pre @ x # post)) s0 =
           (Inl (e\<lparr>trace := trace e @
                  [\<lparr>name = to_string (length pre), user_type = [], node_type = Type x\<rparr>]\<rparr>), s2)"
    using vector_loop_first_failure [OF assms, of post 0 "[]"]
    by (simp add: convert_vector_def IsNull_def IsSequence_def)
next
  have "array_loop convert_T (length (pre @ x # post)) (pre @ x # post) 0
          (replicate (length (pre @ x # post)) None) s0 =
        (Inl (e\<lparr>trace := trace e @
                  [\<lparr>name = to_string_int (0 + int (length pre)), user_type = [], node_type = Type x\<rparr>]\<rparr>), s2)"
    by (rule array_loop_first_failure [OF assms]) simp_all
  then show "convert_array toString convert_T (length (pre @ x # post)) (SequenceNode (pre @ x # post)) s0 =
           (Inl (e\<lparr>trace := trace e @
                  [\<lparr>name = to_string (length pre), user_type = [], node_type = Type x\<rparr>]\<rparr>), s2)"
    by (simp add: convert_array_def IsSequence_def)
qed

theorem first_element_failure_stops_conversion_witness:
  "convert_each example_flag [ScalarNode ''true'', ScalarNode ''false''] [] =
     Some ([True, False], [ScalarNode ''true'', ScalarNode ''false'']) \<and>
   example_flag (MapNode []) [ScalarNode ''true'', ScalarNode ''false''] =
     (Inl \<lparr>message = ''not a scalar'', trace = []\<rparr>,
      [ScalarNode ''true'', ScalarNode ''false'', MapNode []]) \<and>
   convert_vector example_kind example_flag
     (SequenceNode [ScalarNode ''true'', ScalarNode ''false'', MapNode [], ScalarNode ''true'']) [] =
     (Inl \<lparr>message = ''not a scalar'',
           trace = [\<lparr>name = ''2'', user_type = [], node_type = Map\<rparr>]\<rparr>,
      [ScalarNode ''true'', ScalarNode ''false'', MapNode []]) \<and>
   convert_array example_kind example_flag 4
     (SequenceNode [ScalarNode ''true'', ScalarNode ''false'', MapNode [], ScalarNode ''true'']) [] =
     (Inl \<lparr>message = ''not a scalar'',
           trace = [\<lparr>name = ''2'', user_type = [], node_type = Map\<rparr>]\<rparr>,
      [ScalarNode ''true'', ScalarNode ''false'', MapNode []])"
proof -
  have pre: "convert_each example_flag [ScalarNode ''true'', ScalarNode ''false''] [] =
     Some ([True, False], [ScalarNode ''true'', ScalarNode ''false''])"
    by (simp add: example_flag_def)
  have x: "example_flag (MapNode []) [ScalarNode ''true'', ScalarNode ''false''] =
     (Inl \<lparr>message = ''not a scalar'', trace = []\<rparr>,
      [ScalarNode ''true'', ScalarNode ''false'', MapNode []])"
    by (simp add: example_flag_def YamlError_def)
  have four: "(4::nat) = length ([ScalarNode ''true'', ScalarNode ''false''] @ MapNode [] # [ScalarNode ''true''])"
    by simp
  show ?thesis
    unfolding four
    using first_element_failure_stops_conversion [OF pre x, of example_kind "[ScalarNode ''true'']"] pre x
    by (simp add: to_string_digit digit_char_def)
qed

text \<open>
  C2. A conversion under a tag of the overload set, however deeply the type nests, fails
  with an error \<open>e\<close> exactly when a failure arises at some node below the root, the failure
  site: the primitive converter called on the site returned an error, or a composite
  converter rejected the site itself, and at every level above it the children before the one
  on the way to the site had converted. The error \<open>e\<close> is that first error with the
  descriptions of the path from the root to the site put at the end of its trace in reverse
  order, the message unchanged: each level has added its description after those of the
  levels below it. So the last description of the trace is that of the step from the root,
  and, where the first error carries no trace of its own, the description at position 0 is
  that of the failure site.
\<close>

theorem nested_trace_runs_from_failure_site_to_root:
  assumes "convert toString primitive tag = Some c"
  shows "(c root s = (Inl e, s')) =
         (\<exists>path site origin.
            fails_at toString primitive tag root s path site origin s' \<and>
            descends root path site \<and>
            e = origin\<lparr>trace := trace origin @ rev path\<rparr> \<and>
            (path \<noteq> [] \<longrightarrow> last (trace e) = hd path) \<and>
            (path \<noteq> [] \<and> trace origin = [] \<longrightarrow> trace e ! 0 = last path))"
proof
  assume "c root s = (Inl e, s')"
  from failure_of_tag [OF assms this] obtain path site origin where
    f: "fails_at toString primitive tag root s path site origin s'"
    and e: "e = origin\<lparr>trace := trace origin @ rev path\<rparr>"
    by blast
  from f have d: "descends root path site" by (rule fails_at_descends)
  have l: "path \<noteq> [] \<longrightarrow> last (trace e) = hd path"
    by (simp add: e last_rev)
  have h: "path \<noteq> [] \<and> trace origin = [] \<longrightarrow> trace e ! 0 = last path"
    by (simp add: e hd_rev hd_conv_nth [symmetric])
  from f d e l h show "\<exists>path site origin.
            fails_at toString primitive tag root s path site origin s' \<and>
            descends root path site \<and>
            e = origin\<lparr>trace := trace origin @ rev path\<rparr> \<and>
            (path \<noteq> [] \<longrightarrow> last (trace e) = hd path) \<and>
            (path \<noteq> [] \<and> trace origin = [] \<longrightarrow> trace e ! 0 = last path)"
    by blast
next
  assume "\<exists>path site origin.
            fails_at toString primitive tag root s path site origin s' \<and>
            descends root path site \<and>
            e = origin\<lparr>trace := trace origin @ rev path\<rparr> \<and>
            (path \<noteq> [] \<longrightarrow> last (trace e) = hd path) \<and>
            (path \<noteq> [] \<and> trace origin = [] \<longrightarrow> trace e ! 0 = last path)"
  then obtain path site origin where
    f: "fails_at toString primitive tag root s path site origin s'"
    and e: "e = origin\<lparr>trace := trace origin @ rev path\<rparr>"
    by blast
  from fails_at_result [OF f assms] e show "c root s = (Inl e, s')" by simp
qed

theorem nested_trace_runs_from_failure_site_to_root_witness:
  "convert example_kind (\<lambda>l::unit. Some example_flag) (ParseYaml (StdVector (StdArray (Leaf ()) 2))) =
     Some (map_result VectorValue (convert_vector example_kind
            (map_result ArrayValue (convert_array example_kind (map_result LeafValue example_flag) 2)))) \<and>
   fails_at example_kind (\<lambda>l::unit. Some example_flag) (ParseYaml (StdVector (StdArray (Leaf ()) 2)))
     (SequenceNode
       [SequenceNode [ScalarNode ''true'', ScalarNode ''false''],
        SequenceNode [ScalarNode ''false'', ScalarNode ''true''],
        SequenceNode [ScalarNode ''true'', ScalarNode ''x''],
        SequenceNode [ScalarNode ''true'', ScalarNode ''true'']]) []
     [\<lparr>name = ''2'', user_type = [], node_type = Sequence\<rparr>,
      \<lparr>name = ''1'', user_type = [], node_type = Scalar\<rparr>]
     (ScalarNode ''x'') \<lparr>message = ''invalid boolean: x'', trace = []\<rparr>
     [ScalarNode ''true'', ScalarNode ''false'', ScalarNode ''false'', ScalarNode ''true'',
      ScalarNode ''true'', ScalarNode ''x''] \<and>
   map_result VectorValue (convert_vector example_kind
      (map_result ArrayValue (convert_array example_kind (map_result LeafValue example_flag) 2)))
     (SequenceNode
       [SequenceNode [ScalarNode ''true'', ScalarNode ''false''],
        SequenceNode [ScalarNode ''false'', ScalarNode ''true''],
        SequenceNode [ScalarNode ''true'', ScalarNode ''x''],
        SequenceNode [ScalarNode ''true'', ScalarNode ''true'']]) [] =
     (Inl \<lparr>message = ''invalid boolean: x'',
           trace = [\<lparr>name = ''1'', user_type = [], node_type = Scalar\<rparr>,
                    \<lparr>name = ''2'', user_type = [], node_type = Sequence\<rparr>]\<rparr>,
      [ScalarNode ''true'', ScalarNode ''false'', ScalarNode ''false'', ScalarNode ''true'',
       ScalarNode ''true'', ScalarNode ''x''])"
proof -
  let ?P = "\<lambda>l::unit. Some example_flag"
  let ?leaf = "map_result LeafValue example_flag"
  let ?array = "map_result ArrayValue (convert_array example_kind ?leaf 2)"
  let ?rows = "[SequenceNode [ScalarNode ''true'', ScalarNode ''false''],
        SequenceNode [ScalarNode ''false'', ScalarNode ''true''],
        SequenceNode [ScalarNode ''true'', ScalarNode ''x''],
        SequenceNode [ScalarNode ''true'', ScalarNode ''true'']]"
  let ?log4 = "[ScalarNode ''true'', ScalarNode ''false'', ScalarNode ''false'', ScalarNode ''true'']"
  let ?log6 = "[ScalarNode ''true'', ScalarNode ''false'', ScalarNode ''false'', ScalarNode ''true'',
      ScalarNode ''true'', ScalarNode ''x'']"
  let ?origin = "\<lparr>message = ''invalid boolean: x'', trace = []\<rparr>"
  have c: "convert example_kind ?P (ParseYaml (StdVector (StdArray (Leaf ()) 2))) =
     Some (map_result VectorValue (convert_vector example_kind ?array))"
    by simp
  have leaf: "fails_at example_kind ?P (ParseYaml (Leaf ())) (ScalarNode ''x'')
      (?log4 @ [ScalarNode ''true'']) [] (ScalarNode ''x'') ?origin ?log6"
    by (rule fails_at.primitive_fails [where convert_l = example_flag])
      (simp_all add: example_flag_def YamlError_def)
  have "fails_at example_kind ?P (ParseYaml (StdArray (Leaf ()) 2))
      (SequenceNode [ScalarNode ''true'', ScalarNode ''x'']) ?log4
      (\<lparr>name = to_string 1, user_type = [],
        node_type = Type ([ScalarNode ''true'', ScalarNode ''x''] ! 1)\<rparr> # [])
      (ScalarNode ''x'') ?origin ?log6"
  proof (rule fails_at.array_child_fails [where convert_T = ?leaf
        and vs = "[LeafValue True]" and ?s1.0 = "?log4 @ [ScalarNode ''true'']"])
    show "convert example_kind ?P (ParseYaml (Leaf ())) = Some ?leaf" by simp
    show "length [ScalarNode ''true'', ScalarNode ''x''] = 2" by simp
    show "(1::nat) < 2" by simp
    show "convert_each ?leaf (take 1 [ScalarNode ''true'', ScalarNode ''x'']) ?log4 =
        Some ([LeafValue True], ?log4 @ [ScalarNode ''true''])"
      by (simp add: map_result_def example_flag_def)
    show "fails_at example_kind ?P (ParseYaml (Leaf ()))
        ([ScalarNode ''true'', ScalarNode ''x''] ! 1) (?log4 @ [ScalarNode ''true'']) []
        (ScalarNode ''x'') ?origin ?log6"
      using leaf by simp
  qed
  then have row: "fails_at example_kind ?P (ParseYaml (StdArray (Leaf ()) 2))
      (SequenceNode [ScalarNode ''true'', ScalarNode ''x'']) ?log4
      [\<lparr>name = ''1'', user_type = [], node_type = Scalar\<rparr>]
      (ScalarNode ''x'') ?origin ?log6"
    by (simp add: to_string_digit digit_char_def)
  have "fails_at example_kind ?P (ParseYaml (StdVector (StdArray (Leaf ()) 2)))
      (SequenceNode ?rows) []
      (\<lparr>name = to_string 2, user_type = [], node_type = Type (?rows ! 2)\<rparr> #
       [\<lparr>name = ''1'', user_type = [], node_type = Scalar\<rparr>])
      (ScalarNode ''x'') ?origin ?log6"
  proof (rule fails_at.vector_child_fails [where convert_T = ?array
        and vs = "[ArrayValue [LeafValue True, LeafValue False],
                   ArrayValue [LeafValue False, LeafValue True]]" and ?s1.0 = ?log4])
    show "convert example_kind ?P (ParseYaml (StdArray (Leaf ()) 2)) = Some ?array" by simp
    show "2 < length ?rows" by simp
    show "convert_each ?array (take 2 ?rows) [] =
        Some ([ArrayValue [LeafValue True, LeafValue False],
               ArrayValue [LeafValue False, LeafValue True]], ?log4)"
      by (simp add: example_simps numeral_2_eq_2)
    show "fails_at example_kind ?P (ParseYaml (StdArray (Leaf ()) 2)) (?rows ! 2) ?log4
        [\<lparr>name = ''1'', user_type = [], node_type = Scalar\<rparr>] (ScalarNode ''x'') ?origin ?log6"
      using row by simp
  qed
  then have site: "fails_at example_kind ?P (ParseYaml (StdVector (StdArray (Leaf ()) 2)))
      (SequenceNode ?rows) []
      [\<lparr>name = ''2'', user_type = [], node_type = Sequence\<rparr>,
       \<lparr>name = ''1'', user_type = [], node_type = Scalar\<rparr>]
      (ScalarNode ''x'') ?origin ?log6"
    by (simp add: to_string_digit digit_char_def)
  from site have path: "descends (SequenceNode ?rows)
      [\<lparr>name = ''2'', user_type = [], node_type = Sequence\<rparr>,
       \<lparr>name = ''1'', user_type = [], node_type = Scalar\<rparr>] (ScalarNode ''x'')"
    by (rule fails_at_descends)
  have "\<exists>path site origin.
      fails_at example_kind ?P (ParseYaml (StdVector (StdArray (Leaf ()) 2)))
        (SequenceNode ?rows) [] path site origin ?log6 \<and>
      descends (SequenceNode ?rows) path site \<and>
      \<lparr>message = ''invalid boolean: x'',
        trace = [\<lparr>name = ''1'', user_type = [], node_type = Scalar\<rparr>,
                 \<lparr>name = ''2'', user_type = [], node_type = Sequence\<rparr>]\<rparr> =
        origin\<lparr>trace := trace origin @ rev path\<rparr> \<and>
      (path \<noteq> [] \<longrightarrow>
         last (trace \<lparr>message = ''invalid boolean: x'',
           trace = [\<lparr>name = ''1'', user_type = [], node_type = Scalar\<rparr>,
                    \<lparr>name = ''2'', user_type = [], node_type = Sequence\<rparr>]\<rparr>) = hd path) \<and>
      (path \<noteq> [] \<and> trace origin = [] \<longrightarrow>
         trace \<lparr>message = ''invalid boolean: x'',
           trace = [\<lparr>name = ''1'', user_type = [], node_type = Scalar\<rparr>,
                    \<lparr>name = ''2'', user_type = [], node_type = Sequence\<rparr>]\<rparr> ! 0 = last path)"
    by (intro exI conjI, rule site, rule path) simp_all
  with nested_trace_runs_from_failure_site_to_root [OF c, of "SequenceNode ?rows" "[]"
      "\<lparr>message = ''invalid boolean: x'',
        trace = [\<lparr>name = ''1'', user_type = [], node_type = Scalar\<rparr>,
                 \<lparr>name = ''2'', user_type = [], node_type = Sequence\<rparr>]\<rparr>" ?log6]
  have run: "map_result VectorValue (convert_vector example_kind ?array) (SequenceNode ?rows) [] =
     (Inl \<lparr>message = ''invalid boolean: x'',
           trace = [\<lparr>name = ''1'', user_type = [], node_type = Scalar\<rparr>,
                    \<lparr>name = ''2'', user_type = [], node_type = Sequence\<rparr>]\<rparr>, ?log6)"
    by (rule iffD2)
  from c site run show ?thesis by (intro conjI)
qed

text \<open>
  C3. A null node converts to the empty vector and no error, without a call of the element
  converter; a node that is neither null nor a sequence gives the kind-mismatch error
  ``unexpected node type, expected sequence, got <kind>'' with an empty trace, again without
  a call of the element converter.
\<close>

theorem convert_vector_null_and_mismatch:
  "(IsNull node \<longrightarrow> convert_vector toString convert_T node s = (Inr [], s)) \<and>
   (\<not> IsNull node \<and> \<not> IsSequence node \<longrightarrow>
      convert_vector toString convert_T node s =
        (Inl \<lparr>message = ''unexpected node type, expected sequence, got '' @ toString (Type node),
              trace = []\<rparr>, s))"
  by (simp add: convert_vector_def YamlError_def)

theorem convert_vector_null_and_mismatch_witness:
  "IsNull NullNode \<and>
   convert_vector example_kind example_flag NullNode [] = (Inr [], []) \<and>
   \<not> IsNull (MapNode [(ScalarNode ''a'', ScalarNode ''true'')]) \<and>
   \<not> IsSequence (MapNode [(ScalarNode ''a'', ScalarNode ''true'')]) \<and>
   convert_vector example_kind example_flag (MapNode [(ScalarNode ''a'', ScalarNode ''true'')]) [] =
     (Inl \<lparr>message = ''unexpected node type, expected sequence, got map'', trace = []\<rparr>, [])"
  using convert_vector_null_and_mismatch [of NullNode example_kind example_flag "[]"]
    convert_vector_null_and_mismatch
      [of "MapNode [(ScalarNode ''a'', ScalarNode ''true'')]" example_kind example_flag "[]"]
  by (simp add: IsNull_def IsSequence_def example_kind_def)

text \<open>
  C4. For a sequence whose number of children is not \<open>N\<close>, the array conversion fails, before
  any child is converted, with the message ``wrong number of elements, expected N, got
  <size>'', both numbers in decimal, and an empty trace. For three children and \<open>N = 4\<close> the
  message is ``wrong number of elements, expected 4, got 3''.
\<close>

theorem convert_array_wrong_size:
  assumes "IsSequence node" and "node_size node \<noteq> N"
  shows "convert_array toString convert_T N node s =
           (Inl \<lparr>message = ''wrong number of elements, expected '' @ to_string N @ '', got '' @
                   to_string (node_size node), trace = []\<rparr>, s) \<and>
         (N = 4 \<and> node_size node = 3 \<longrightarrow>
            convert_array toString convert_T N node s =
              (Inl \<lparr>message = ''wrong number of elements, expected 4, got 3'', trace = []\<rparr>, s))"
proof -
  have general: "convert_array toString convert_T N node s =
           (Inl \<lparr>message = ''wrong number of elements, expected '' @ to_string N @ '', got '' @
                   to_string (node_size node), trace = []\<rparr>, s)"
    using assms by (simp add: convert_array_def YamlError_def)
  have four: "to_string 4 = ''4''" and three: "to_string 3 = ''3''"
    by (simp_all add: to_string_digit digit_char_def)
  show ?thesis
  proof (intro conjI impI)
    show "convert_array toString convert_T N node s =
           (Inl \<lparr>message = ''wrong number of elements, expected '' @ to_string N @ '', got '' @
                   to_string (node_size node), trace = []\<rparr>, s)"
      by (rule general)
  next
    assume "N = 4 \<and> node_size node = 3"
    with general four three
    show "convert_array toString convert_T N node s =
              (Inl \<lparr>message = ''wrong number of elements, expected 4, got 3'', trace = []\<rparr>, s)"
      by simp
  qed
qed

theorem convert_array_wrong_size_witness:
  "IsSequence (SequenceNode [ScalarNode ''true'', ScalarNode ''false'', ScalarNode ''true'']) \<and>
   node_size (SequenceNode [ScalarNode ''true'', ScalarNode ''false'', ScalarNode ''true'']) \<noteq> 4 \<and>
   convert_array example_kind example_flag 4
     (SequenceNode [ScalarNode ''true'', ScalarNode ''false'', ScalarNode ''true'']) [] =
     (Inl \<lparr>message = ''wrong number of elements, expected 4, got 3'', trace = []\<rparr>, [])"
proof -
  have seq: "IsSequence (SequenceNode [ScalarNode ''true'', ScalarNode ''false'', ScalarNode ''true''])"
    by (simp add: IsSequence_def)
  have size: "node_size (SequenceNode [ScalarNode ''true'', ScalarNode ''false'', ScalarNode ''true'']) \<noteq> 4"
    by simp
  have three: "(4::nat) = 4 \<and>
      node_size (SequenceNode [ScalarNode ''true'', ScalarNode ''false'', ScalarNode ''true'']) = 3"
    by simp
  from convert_array_wrong_size [OF seq size, of example_kind example_flag "[]"] three
  have "convert_array example_kind example_flag 4
     (SequenceNode [ScalarNode ''true'', ScalarNode ''false'', ScalarNode ''true'']) [] =
     (Inl \<lparr>message = ''wrong number of elements, expected 4, got 3'', trace = []\<rparr>, [])"
    by blast
  with seq size show ?thesis by (intro conjI)
qed

text \<open>
  C5. The request \<^verbatim>\<open>parseYaml<std::map<std::string, T>>\<close> reaches no converter: no overload of
  \<^verbatim>\<open>convert\<close> takes the tag \<^verbatim>\<open>ParseYaml<std::map<std::string, T>>\<close>, so \<^verbatim>\<open>can_parse_yaml\<close> is
  false for the map type and the \<^verbatim>\<open>static_assert\<close> of \<^verbatim>\<open>parseYaml\<close> rejects the request, for
  every \<open>T\<close> and whatever element converters are registered. (The body of the map converter,
  which sits under the tag \<^verbatim>\<open>YamlResult<...>\<close>, does what is asked of the mapping conversion:
  \<open>convert_map_body\<close>, \<open>convert_map_under_YamlResult\<close>.)
\<close>

theorem parseYaml_rejects_std_map:
  "convert toString primitive (ParseYaml (StdMap T)) = None \<and>
   \<not> can_parse_yaml toString primitive (StdMap T) \<and>
   parseYaml_instance toString primitive (StdMap T) = None"
  by (simp add: can_parse_yaml_def parseYaml_instance_def)

text \<open>
  C6. On a map node, \<^verbatim>\<open>setIfExists\<close> with a key that no entry has leaves \<^verbatim>\<open>output\<close> as it was and
  throws nothing; with a key whose value \<^verbatim>\<open>Node::as<T>()\<close> cannot convert, it fails with the
  very exception that the conversion threw.
\<close>

theorem setIfExists_absent_or_unconvertible:
  assumes "IsMap node"
  shows "(ScalarNode key \<notin> fst ` set (map_range node) \<longrightarrow>
            setIfExists bad_subscript as_T output node key = Inr output) \<and>
         (\<forall>child thrown. subscript bad_subscript node key = Inr (Some child) \<and> as_T child = Inl thrown \<longrightarrow>
            setIfExists bad_subscript as_T output node key = Inl thrown)"
proof -
  from assms obtain entries where node: "node = MapNode entries"
    by (cases node) (simp_all add: IsMap_def)
  show ?thesis
    by (simp add: node setIfExists_def find_entry_absent)
qed

theorem setIfExists_absent_or_unconvertible_witness:
  "IsMap (MapNode [(ScalarNode ''on'', ScalarNode ''maybe'')]) \<and>
   ScalarNode ''off'' \<notin> fst ` set (map_range (MapNode [(ScalarNode ''on'', ScalarNode ''maybe'')])) \<and>
   setIfExists ''bad subscript'' example_as True (MapNode [(ScalarNode ''on'', ScalarNode ''maybe'')]) ''off'' =
     Inr True \<and>
   subscript ''bad subscript'' (MapNode [(ScalarNode ''on'', ScalarNode ''maybe'')]) ''on'' =
     Inr (Some (ScalarNode ''maybe'')) \<and>
   example_as (ScalarNode ''maybe'') = Inl (std_exception ''bad conversion'') \<and>
   setIfExists ''bad subscript'' example_as True (MapNode [(ScalarNode ''on'', ScalarNode ''maybe'')]) ''on'' =
     Inl (std_exception ''bad conversion'')"
proof -
  have m: "IsMap (MapNode [(ScalarNode ''on'', ScalarNode ''maybe'')])" by (simp add: IsMap_def)
  from setIfExists_absent_or_unconvertible [OF m, of "''off''" "''bad subscript''" example_as True]
    setIfExists_absent_or_unconvertible [OF m, of "''on''" "''bad subscript''" example_as True] m
  show ?thesis by (simp add: example_as_def)
qed

text \<open>
  C7. On a map node, \<^verbatim>\<open>convertChild\<close> with a key that no entry has returns the error
  ``no such key: <key>''. With a key that is there, an exception of the conversion that is a
  \<^verbatim>\<open>std::exception\<close>, as every exception of yaml-cpp is, comes back as a returned
  \<^verbatim>\<open>DetailedError\<close> ``failed to convert node: <text>'', with the code of a
  \<^verbatim>\<open>std::system_error\<close> or else \<^verbatim>\<open>invalid_argument\<close>. No \<^verbatim>\<open>std::exception\<close> leaves the function.
\<close>

theorem convertChild_returns_every_failure:
  assumes "IsMap node"
  shows "(ScalarNode key \<notin> fst ` set (map_range node) \<longrightarrow>
            convertChild bad_subscript as_T node key =
              Inr (Inl (DetailedError invalid_argument (''no such key: '' @ key)))) \<and>
         (\<forall>child what. subscript bad_subscript node key = Inr (Some child) \<and>
            as_T child = Inl (std_exception what) \<longrightarrow>
            convertChild bad_subscript as_T node key =
              Inr (Inl (DetailedError invalid_argument (''failed to convert node: '' @ what)))) \<and>
         (\<forall>child code what. subscript bad_subscript node key = Inr (Some child) \<and>
            as_T child = Inl (system_error code what) \<longrightarrow>
            convertChild bad_subscript as_T node key =
              Inr (Inl (DetailedError code (''failed to convert node: '' @ what)))) \<and>
         (\<forall>thrown. convertChild bad_subscript as_T node key = Inl thrown \<longrightarrow>
            thrown = foreign_exception)"
proof -
  from assms obtain entries where node: "node = MapNode entries"
    by (cases node) (simp_all add: IsMap_def)
  show ?thesis
    by (auto simp: node convertChild_def find_entry_absent
        split: option.splits sum.splits cpp_exception.splits)
qed

theorem convertChild_returns_every_failure_witness:
  "IsMap (MapNode [(ScalarNode ''on'', ScalarNode ''maybe'')]) \<and>
   ScalarNode ''off'' \<notin> fst ` set (map_range (MapNode [(ScalarNode ''on'', ScalarNode ''maybe'')])) \<and>
   convertChild ''bad subscript'' example_as (MapNode [(ScalarNode ''on'', ScalarNode ''maybe'')]) ''off'' =
     Inr (Inl (DetailedError invalid_argument ''no such key: off'')) \<and>
   subscript ''bad subscript'' (MapNode [(ScalarNode ''on'', ScalarNode ''maybe'')]) ''on'' =
     Inr (Some (ScalarNode ''maybe'')) \<and>
   example_as (ScalarNode ''maybe'') = Inl (std_exception ''bad conversion'') \<and>
   convertChild ''bad subscript'' example_as (MapNode [(ScalarNode ''on'', ScalarNode ''maybe'')]) ''on'' =
     Inr (Inl (DetailedError invalid_argument ''failed to convert node: bad conversion'')) \<and>
   subscript ''bad subscript'' (MapNode [(ScalarNode ''on'', ScalarNode ''maybe'')]) ''on'' =
     Inr (Some (ScalarNode ''maybe'')) \<and>
   (\<lambda>node. Inl (system_error (other_code 5) ''input/output error'') :: cpp_exception + bool)
     (ScalarNode ''maybe'') = Inl (system_error (other_code 5) ''input/output error'') \<and>
   convertChild ''bad subscript''
     (\<lambda>node. Inl (system_error (other_code 5) ''input/output error'') :: cpp_exception + bool)
     (MapNode [(ScalarNode ''on'', ScalarNode ''maybe'')]) ''on'' =
     Inr (Inl (DetailedError (other_code 5) ''failed to convert node: input/output error'')) \<and>
   convertChild ''bad subscript'' (\<lambda>node. Inl foreign_exception :: cpp_exception + bool)
     (MapNode [(ScalarNode ''on'', ScalarNode ''maybe'')]) ''on'' = Inl foreign_exception"
proof -
  have m: "IsMap (MapNode [(ScalarNode ''on'', ScalarNode ''maybe'')])" by (simp add: IsMap_def)
  from convertChild_returns_every_failure [OF m, of "''off''" "''bad subscript''" example_as]
    convertChild_returns_every_failure [OF m, of "''on''" "''bad subscript''" example_as]
    convertChild_returns_every_failure [OF m, of "''on''" "''bad subscript''"
      "\<lambda>node. Inl (system_error (other_code 5) ''input/output error'') :: cpp_exception + bool"]
    convertChild_returns_every_failure [OF m, of "''on''" "''bad subscript''"
      "\<lambda>node. Inl foreign_exception :: cpp_exception + bool"] m
  show ?thesis by (simp add: example_as_def convertChild_def)
qed

text \<open>
  C9. When the array, the vector or the map converter fails, either it rejected the node
  itself and the trace is empty, or it added one description to the error of a child, and
  the kind in that description is the kind of that child, whatever kind the converter of
  the child wanted.
\<close>

theorem appended_description_has_kind_of_child:
  "(convert_array toString convert_T N node s = (Inl e', s') \<longrightarrow>
      trace e' = [] \<or>
      (\<exists>d child e s1. child \<in> set (sequence_range node) \<and> convert_T child s1 = (Inl e, s') \<and>
         e' = e\<lparr>trace := trace e @ [d]\<rparr> \<and> node_type d = Type child)) \<and>
   (convert_vector toString convert_T node s = (Inl e', s') \<longrightarrow>
      trace e' = [] \<or>
      (\<exists>d child e s1. child \<in> set (sequence_range node) \<and> convert_T child s1 = (Inl e, s') \<and>
         e' = e\<lparr>trace := trace e @ [d]\<rparr> \<and> node_type d = Type child)) \<and>
   (convert_map toString convert_T node s = (Inl e', s') \<longrightarrow>
      trace e' = [] \<or>
      (\<exists>d child e s1. child \<in> snd ` set (map_range node) \<and> convert_T child s1 = (Inl e, s') \<and>
         e' = e\<lparr>trace := trace e @ [d]\<rparr> \<and> node_type d = Type child))"
proof (intro conjI impI)
  assume "convert_array toString convert_T N node s = (Inl e', s')"
  from convert_array_failure [OF this]
  show "trace e' = [] \<or>
      (\<exists>d child e s1. child \<in> set (sequence_range node) \<and> convert_T child s1 = (Inl e, s') \<and>
         e' = e\<lparr>trace := trace e @ [d]\<rparr> \<and> node_type d = Type child)"
  proof (elim disjE exE conjE)
    fix children k e vs s1
    assume "node = SequenceNode children" "length children = N" "k < N"
      "convert_T (children ! k) s1 = (Inl e, s')"
      "e' = e\<lparr>trace := trace e @
             [\<lparr>name = to_string k, user_type = [], node_type = Type (children ! k)\<rparr>]\<rparr>"
    then have "children ! k \<in> set (sequence_range node) \<and> convert_T (children ! k) s1 = (Inl e, s') \<and>
      e' = e\<lparr>trace := trace e @
             [\<lparr>name = to_string k, user_type = [], node_type = Type (children ! k)\<rparr>]\<rparr> \<and>
      node_type \<lparr>name = to_string k, user_type = [], node_type = Type (children ! k)\<rparr> =
        Type (children ! k)"
      by simp
    then show ?thesis by blast
  qed simp_all
next
  assume "convert_vector toString convert_T node s = (Inl e', s')"
  from convert_vector_failure [OF this]
  show "trace e' = [] \<or>
      (\<exists>d child e s1. child \<in> set (sequence_range node) \<and> convert_T child s1 = (Inl e, s') \<and>
         e' = e\<lparr>trace := trace e @ [d]\<rparr> \<and> node_type d = Type child)"
  proof (elim disjE exE conjE)
    fix children k e vs s1
    assume "node = SequenceNode children" "k < length children"
      "convert_T (children ! k) s1 = (Inl e, s')"
      "e' = e\<lparr>trace := trace e @
             [\<lparr>name = to_string k, user_type = [], node_type = Type (children ! k)\<rparr>]\<rparr>"
    then have "children ! k \<in> set (sequence_range node) \<and> convert_T (children ! k) s1 = (Inl e, s') \<and>
      e' = e\<lparr>trace := trace e @
             [\<lparr>name = to_string k, user_type = [], node_type = Type (children ! k)\<rparr>]\<rparr> \<and>
      node_type \<lparr>name = to_string k, user_type = [], node_type = Type (children ! k)\<rparr> =
        Type (children ! k)"
      by simp
    then show ?thesis by blast
  qed simp_all
next
  assume "convert_map toString convert_T node s = (Inl e', s')"
  from convert_map_failure [OF this]
  show "trace e' = [] \<or>
      (\<exists>d child e s1. child \<in> snd ` set (map_range node) \<and> convert_T child s1 = (Inl e, s') \<and>
         e' = e\<lparr>trace := trace e @ [d]\<rparr> \<and> node_type d = Type child)"
  proof (elim disjE exE conjE)
    fix entries k e vs s1
    assume "node = MapNode entries" "k < length entries"
      "convert_T (snd (entries ! k)) s1 = (Inl e, s')"
      "e' = e\<lparr>trace := trace e @
             [\<lparr>name = Scalar_text (fst (entries ! k)), user_type = [],
               node_type = Type (snd (entries ! k))\<rparr>]\<rparr>"
    then have "snd (entries ! k) \<in> snd ` set (map_range node) \<and>
      convert_T (snd (entries ! k)) s1 = (Inl e, s') \<and>
      e' = e\<lparr>trace := trace e @
             [\<lparr>name = Scalar_text (fst (entries ! k)), user_type = [],
               node_type = Type (snd (entries ! k))\<rparr>]\<rparr> \<and>
      node_type \<lparr>name = Scalar_text (fst (entries ! k)), user_type = [],
               node_type = Type (snd (entries ! k))\<rparr> = Type (snd (entries ! k))"
      by simp
    then show ?thesis by blast
  qed simp_all
qed

theorem appended_description_has_kind_of_child_witness:
  "convert_array example_kind example_flag 2 (SequenceNode [ScalarNode ''true'', MapNode []]) [] =
     (Inl \<lparr>message = ''not a scalar'',
           trace = [\<lparr>name = ''1'', user_type = [], node_type = Map\<rparr>]\<rparr>,
      [ScalarNode ''true'', MapNode []]) \<and>
   convert_vector example_kind example_flag (SequenceNode [SequenceNode []]) [] =
     (Inl \<lparr>message = ''not a scalar'',
           trace = [\<lparr>name = ''0'', user_type = [], node_type = Sequence\<rparr>]\<rparr>,
      [SequenceNode []]) \<and>
   convert_map example_kind example_flag
     (MapNode [(ScalarNode ''a'', ScalarNode ''true''), (ScalarNode ''b'', NullNode)]) [] =
     (Inl \<lparr>message = ''not a scalar'',
           trace = [\<lparr>name = ''b'', user_type = [], node_type = Null\<rparr>]\<rparr>,
      [ScalarNode ''true'', NullNode]) \<and>
   (\<exists>d child e s1. child \<in> set (sequence_range (SequenceNode [ScalarNode ''true'', MapNode []])) \<and>
      example_flag child s1 = (Inl e, [ScalarNode ''true'', MapNode []]) \<and>
      \<lparr>message = ''not a scalar'', trace = [\<lparr>name = ''1'', user_type = [], node_type = Map\<rparr>]\<rparr> =
        e\<lparr>trace := trace e @ [d]\<rparr> \<and> node_type d = Type child) \<and>
   (\<exists>d child e s1. child \<in> set (sequence_range (SequenceNode [SequenceNode []])) \<and>
      example_flag child s1 = (Inl e, [SequenceNode []]) \<and>
      \<lparr>message = ''not a scalar'', trace = [\<lparr>name = ''0'', user_type = [], node_type = Sequence\<rparr>]\<rparr> =
        e\<lparr>trace := trace e @ [d]\<rparr> \<and> node_type d = Type child) \<and>
   (\<exists>d child e s1.
      child \<in> snd ` set (map_range (MapNode [(ScalarNode ''a'', ScalarNode ''true''), (ScalarNode ''b'', NullNode)])) \<and>
      example_flag child s1 = (Inl e, [ScalarNode ''true'', NullNode]) \<and>
      \<lparr>message = ''not a scalar'', trace = [\<lparr>name = ''b'', user_type = [], node_type = Null\<rparr>]\<rparr> =
        e\<lparr>trace := trace e @ [d]\<rparr> \<and> node_type d = Type child)"
proof -
  have a: "convert_array example_kind example_flag 2 (SequenceNode [ScalarNode ''true'', MapNode []]) [] =
     (Inl \<lparr>message = ''not a scalar'',
           trace = [\<lparr>name = ''1'', user_type = [], node_type = Map\<rparr>]\<rparr>,
      [ScalarNode ''true'', MapNode []])"
    by (simp add: example_simps)
  have v: "convert_vector example_kind example_flag (SequenceNode [SequenceNode []]) [] =
     (Inl \<lparr>message = ''not a scalar'',
           trace = [\<lparr>name = ''0'', user_type = [], node_type = Sequence\<rparr>]\<rparr>,
      [SequenceNode []])"
    by (simp add: example_simps)
  have m: "convert_map example_kind example_flag
     (MapNode [(ScalarNode ''a'', ScalarNode ''true''), (ScalarNode ''b'', NullNode)]) [] =
     (Inl \<lparr>message = ''not a scalar'',
           trace = [\<lparr>name = ''b'', user_type = [], node_type = Null\<rparr>]\<rparr>,
      [ScalarNode ''true'', NullNode])"
    by (simp add: example_simps)
  note claim = appended_description_has_kind_of_child
  from claim [of example_kind example_flag 2 "SequenceNode [ScalarNode ''true'', MapNode []]" "[]"
      "\<lparr>message = ''not a scalar'', trace = [\<lparr>name = ''1'', user_type = [], node_type = Map\<rparr>]\<rparr>"
      "[ScalarNode ''true'', MapNode []]"] a
  have a': "\<exists>d child e s1. child \<in> set (sequence_range (SequenceNode [ScalarNode ''true'', MapNode []])) \<and>
      example_flag child s1 = (Inl e, [ScalarNode ''true'', MapNode []]) \<and>
      \<lparr>message = ''not a scalar'', trace = [\<lparr>name = ''1'', user_type = [], node_type = Map\<rparr>]\<rparr> =
        e\<lparr>trace := trace e @ [d]\<rparr> \<and> node_type d = Type child"
    by simp
  from claim [of example_kind example_flag 2 "SequenceNode [SequenceNode []]" "[]"
      "\<lparr>message = ''not a scalar'', trace = [\<lparr>name = ''0'', user_type = [], node_type = Sequence\<rparr>]\<rparr>"
      "[SequenceNode []]"] v
  have v': "\<exists>d child e s1. child \<in> set (sequence_range (SequenceNode [SequenceNode []])) \<and>
      example_flag child s1 = (Inl e, [SequenceNode []]) \<and>
      \<lparr>message = ''not a scalar'', trace = [\<lparr>name = ''0'', user_type = [], node_type = Sequence\<rparr>]\<rparr> =
        e\<lparr>trace := trace e @ [d]\<rparr> \<and> node_type d = Type child"
    by simp
  from claim [of example_kind example_flag 2
      "MapNode [(ScalarNode ''a'', ScalarNode ''true''), (ScalarNode ''b'', NullNode)]" "[]"
      "\<lparr>message = ''not a scalar'', trace = [\<lparr>name = ''b'', user_type = [], node_type = Null\<rparr>]\<rparr>"
      "[ScalarNode ''true'', NullNode]"] m
  have m': "\<exists>d child e s1.
      child \<in> snd ` set (map_range (MapNode [(ScalarNode ''a'', ScalarNode ''true''), (ScalarNode ''b'', NullNode)])) \<and>
      example_flag child s1 = (Inl e, [ScalarNode ''true'', NullNode]) \<and>
      \<lparr>message = ''not a scalar'', trace = [\<lparr>name = ''b'', user_type = [], node_type = Null\<rparr>]\<rparr> =
        e\<lparr>trace := trace e @ [d]\<rparr> \<and> node_type d = Type child"
    by simp
  from a v m a' v' m' show ?thesis by (intro conjI)
qed

text \<open>
  C10. For a sequence of exactly \<open>N\<close> children the branch ``sequence too long'' of the array
  loop is never taken. The counter is the number of children already converted, and at
  each of the values \<open>0, ..., N - 1\<close> the guard \<^verbatim>\<open>index >= N\<close>, with the counter converted to
  \<^verbatim>\<open>std::size_t\<close>, is false; the array conversion returns what the vector conversion, whose
  loop has no such branch, returns on the same node; and it never returns the error of that
  branch, whatever the index.
\<close>

theorem array_sequence_too_long_unreachable:
  assumes "IsSequence node" and "node_size node = N"
  shows "(\<forall>k<N. \<not> N \<le> size_t_of_int (int k)) \<and>
         convert_array toString convert_T N node s = convert_vector toString convert_T node s \<and>
         (\<forall>index. fst (convert_array toString convert_T N node s) \<noteq>
            Inl (YamlError (''sequence too long, expected '' @ to_string N @ '', now at index '' @
                   to_string_int index) []))"
proof (intro conjI)
  show "\<forall>k<N. \<not> N \<le> size_t_of_int (int k)"
    by (simp add: size_t_of_int_less)
  from assms obtain children where node: "node = SequenceNode children" and len: "length children = N"
    by (cases node) (simp_all add: IsSequence_def)
  have "array_loop convert_T N children 0 (replicate N None) s = vector_loop convert_T children 0 [] s"
    by (rule array_loop_eq_vector_loop) (simp_all add: len)
  with node len show "convert_array toString convert_T N node s = convert_vector toString convert_T node s"
    by (simp add: convert_array_def convert_vector_def IsSequence_def IsNull_def)
  show "\<forall>index. fst (convert_array toString convert_T N node s) \<noteq>
            Inl (YamlError (''sequence too long, expected '' @ to_string N @ '', now at index '' @
                   to_string_int index) [])"
  proof (intro allI notI)
    fix index
    define too_long where "too_long = YamlError (''sequence too long, expected '' @ to_string N @
      '', now at index '' @ to_string_int index) []"
    assume "fst (convert_array toString convert_T N node s) =
            Inl (YamlError (''sequence too long, expected '' @ to_string N @ '', now at index '' @
                   to_string_int index) [])"
    then have a: "fst (convert_array toString convert_T N node s) = Inl too_long"
      by (simp only: too_long_def)
    have no_trace: "trace too_long = []" by (simp add: too_long_def YamlError_def)
    obtain r s' where r: "convert_array toString convert_T N node s = (r, s')"
      by (cases "convert_array toString convert_T N node s")
    with a have "convert_array toString convert_T N node s = (Inl too_long, s')" by simp
    from convert_array_failure [OF this] show False
    proof (elim disjE exE conjE)
      assume "\<not> IsSequence node"
      with assms(1) show False by simp
    next
      assume "node_size node \<noteq> N"
      with assms(2) show False by simp
    next
      fix children k e vs s1
      assume "too_long = e\<lparr>trace := trace e @
        [\<lparr>name = to_string k, user_type = [], node_type = Type (children ! k)\<rparr>]\<rparr>"
      then have "trace too_long = trace e @
        [\<lparr>name = to_string k, user_type = [], node_type = Type (children ! k)\<rparr>]"
        by simp
      with no_trace show False by simp
    qed
  qed
qed

theorem array_sequence_too_long_unreachable_witness:
  "IsSequence (SequenceNode [ScalarNode ''true'', ScalarNode ''false'']) \<and>
   node_size (SequenceNode [ScalarNode ''true'', ScalarNode ''false'']) = 2 \<and>
   convert_array example_kind example_flag 2 (SequenceNode [ScalarNode ''true'', ScalarNode ''false'']) [] =
     (Inr [True, False], [ScalarNode ''true'', ScalarNode ''false'']) \<and>
   \<not> 2 \<le> size_t_of_int (int 0) \<and> \<not> 2 \<le> size_t_of_int (int 1) \<and>
   convert_array example_kind example_flag 2 (SequenceNode [ScalarNode ''true'', ScalarNode ''false'']) [] =
     convert_vector example_kind example_flag (SequenceNode [ScalarNode ''true'', ScalarNode ''false'']) [] \<and>
   (\<forall>index. fst (convert_array example_kind example_flag 2
        (SequenceNode [ScalarNode ''true'', ScalarNode ''false'']) []) \<noteq>
      Inl (YamlError (''sequence too long, expected '' @ to_string 2 @ '', now at index '' @
             to_string_int index) []))"
proof -
  have seq: "IsSequence (SequenceNode [ScalarNode ''true'', ScalarNode ''false''])"
    by (simp add: IsSequence_def)
  have size: "node_size (SequenceNode [ScalarNode ''true'', ScalarNode ''false'']) = 2"
    by simp
  have run: "convert_array example_kind example_flag 2
      (SequenceNode [ScalarNode ''true'', ScalarNode ''false'']) [] =
     (Inr [True, False], [ScalarNode ''true'', ScalarNode ''false''])"
    by (simp add: convert_array_def IsSequence_def parseYaml_def example_flag_def size_t_of_int_def
        numeral_2_eq_2)
  note claim = array_sequence_too_long_unreachable [OF seq size, of example_kind example_flag "[]"]
  have guard: "\<not> 2 \<le> size_t_of_int (int 0)" "\<not> 2 \<le> size_t_of_int (int 1)"
    using claim [THEN conjunct1, rule_format, of 0] claim [THEN conjunct1, rule_format, of 1]
    by simp_all
  from seq size run guard claim [THEN conjunct2, THEN conjunct1]
    claim [THEN conjunct2, THEN conjunct2]
  show ?thesis by (intro conjI)
qed

end
